theory Spec2Isabelle
  imports Complex_Main
begin

section \<open>JavaScript values\<close>

text \<open>
  The class \<^verbatim>\<open>LiquidGlass\<close> of \<^verbatim>\<open>src/index.js\<close> handles strings, numbers, booleans and
  \<^verbatim>\<open>undefined\<close>. The TypeScript declarations of the package fix the type of every
  option and of every update parameter, so a value that may be absent is an \<open>option\<close>
  (\<open>None\<close> is \<^verbatim>\<open>undefined\<close>) of its declared type.

  A number is a finite decimal (a rational) or \<^verbatim>\<open>NaN\<close>. Arithmetic on \<open>Num\<close> is exact:
  it is the arithmetic of IEEE doubles wherever that one does not round, in particular
  on the integers below \<open>2 ^ 53\<close>, and differs from it elsewhere (\<open>0.3 - 0.1\<close> is \<open>0.2\<close>
  here). The theorems therefore apply it to whole coordinates only. Infinities and the
  sign of zero are outside the model.
  Strings are lists of 8-bit characters, read as the code units U+0000 to U+00FF.
\<close>

datatype jsnum = Num rat | NaN

text \<open>\<^verbatim>\<open>ToBoolean\<close>: zero and \<^verbatim>\<open>NaN\<close> are falsy, as are the empty string and \<^verbatim>\<open>undefined\<close>.\<close>

fun truthy_num :: "jsnum \<Rightarrow> bool" where
  "truthy_num NaN = False"
| "truthy_num (Num q) = (q \<noteq> 0)"

text \<open>The operator \<^verbatim>\<open>a || b\<close>, at each of the three types an option has.\<close>

definition or_str :: "string option \<Rightarrow> string \<Rightarrow> string" where
  "or_str a b = (case a of None \<Rightarrow> b | Some s \<Rightarrow> if s = [] then b else s)"

definition or_num :: "jsnum option \<Rightarrow> jsnum \<Rightarrow> jsnum" where
  "or_num a b = (case a of None \<Rightarrow> b | Some n \<Rightarrow> if truthy_num n then n else b)"

definition or_bool :: "bool option \<Rightarrow> bool \<Rightarrow> bool" where
  "or_bool a b = (case a of None \<Rightarrow> b | Some x \<Rightarrow> if x then x else b)"

text \<open>\<^verbatim>\<open>ToNumber\<close> of a number or \<^verbatim>\<open>undefined\<close>, and the operators \<^verbatim>\<open>-\<close> and \<^verbatim>\<open>+\<close> on numbers.\<close>

fun to_number :: "jsnum option \<Rightarrow> jsnum" where
  "to_number None = NaN"
| "to_number (Some n) = n"

fun js_minus :: "jsnum \<Rightarrow> jsnum \<Rightarrow> jsnum" where
  "js_minus (Num a) (Num b) = Num (a - b)"
| "js_minus _ _ = NaN"

fun js_plus :: "jsnum \<Rightarrow> jsnum \<Rightarrow> jsnum" where
  "js_plus (Num a) (Num b) = Num (a + b)"
| "js_plus _ _ = NaN"

subsection \<open>Numbers as text\<close>

text \<open>
  \<^verbatim>\<open>Number::toString\<close>, as a template literal and \<^verbatim>\<open>setAttribute\<close> apply it: the digits
  of the integer part, then a point and the digits of the fraction when there is one.
  This is the text JavaScript prints for a decimal of at most 17 significant digits
  between one millionth and \<open>10 ^ 21\<close>; the exponent notation outside that range is not modelled,
  and a fraction is cut after 20 digits. The theorems read it at fixed numbers of that
  kind (\<open>0.9\<close>, \<open>0.02\<close>, \<open>120\<close>, \<open>80\<close>, \<open>90\<close>) and at \<^verbatim>\<open>NaN\<close>.
\<close>

definition digit_char :: "nat \<Rightarrow> char" where
  "digit_char n = ''0123456789'' ! (n mod 10)"

function nat_digits :: "nat \<Rightarrow> string" where
  "nat_digits n = (if n < 10 then [digit_char n] else nat_digits (n div 10) @ [digit_char n])"
  by pat_completeness auto
termination
  by (relation "measure id") auto

declare nat_digits.simps [simp del]

fun frac_digits :: "nat \<Rightarrow> rat \<Rightarrow> string" where
  "frac_digits 0 f = []"
| "frac_digits (Suc k) f =
     (if f = 0 then []
      else digit_char (nat \<lfloor>f * 10\<rfloor>) # frac_digits k (f * 10 - of_int \<lfloor>f * 10\<rfloor>))"

definition positive_to_string :: "rat \<Rightarrow> string" where
  "positive_to_string q =
     nat_digits (nat \<lfloor>q\<rfloor>) @
     (if q = of_int \<lfloor>q\<rfloor> then [] else ''.'' @ frac_digits 20 (q - of_int \<lfloor>q\<rfloor>))"

fun number_to_string :: "jsnum \<Rightarrow> string" where
  "number_to_string NaN = ''NaN''"
| "number_to_string (Num q) =
     (if q < 0 then ''-'' @ positive_to_string (- q) else positive_to_string q)"

subsection \<open>The two string operations of the class\<close>

text \<open>\<^verbatim>\<open>s.substr(start, length)\<close> for non-negative arguments.\<close>

definition substr :: "nat \<Rightarrow> nat \<Rightarrow> string \<Rightarrow> string" where
  "substr start len s = take len (drop start s)"

text \<open>
  \<^verbatim>\<open>s.match(/rgba?\((\d+),\s*(\d+),\s*(\d+)/)\<close>. The expression is not anchored, so the
  match is looked for at every position from the left. Every quantifier of the
  expression is followed by a character outside the class it repeats, so the greedy
  reading below is the only one: backtracking never finds a match the greedy run
  misses. The result is the three captured groups.
\<close>

definition is_digit :: "char \<Rightarrow> bool" where
  "is_digit c = (c \<in> set ''0123456789'')"

definition is_space :: "char \<Rightarrow> bool" where
  "is_space c = (c \<in> set [CHR 0x20, CHR 0x09, CHR 0x0A, CHR 0x0B, CHR 0x0C, CHR 0x0D, CHR 0xA0])"

text \<open>\<^verbatim>\<open>(\d+)\<close> followed by \<^verbatim>\<open>,\s*\<close>: the digits and the rest of the text.\<close>

definition digits_comma :: "string \<Rightarrow> (string \<times> string) option" where
  "digits_comma s =
     (let ds = takeWhile is_digit s; r = dropWhile is_digit s in
      if ds = [] then None
      else case r of
        [] \<Rightarrow> None
      | c # r' \<Rightarrow> if c = CHR '','' then Some (ds, dropWhile is_space r') else None)"

definition match_here :: "string \<Rightarrow> (string \<times> string \<times> string) option" where
  "match_here s =
     (if take 3 s \<noteq> ''rgb'' then None
      else let s1 = drop 3 s;
               s2 = (case s1 of [] \<Rightarrow> [] | c # r \<Rightarrow> if c = CHR ''a'' then r else s1) in
           case s2 of
             [] \<Rightarrow> None
           | c # s3 \<Rightarrow>
               if c \<noteq> CHR ''('' then None
               else case digits_comma s3 of
                 None \<Rightarrow> None
               | Some (r, s4) \<Rightarrow>
                   (case digits_comma s4 of
                      None \<Rightarrow> None
                    | Some (g, s5) \<Rightarrow>
                        (let b = takeWhile is_digit s5 in
                         if b = [] then None else Some (r, g, b))))"

fun rgbaMatch :: "string \<Rightarrow> (string \<times> string \<times> string) option" where
  "rgbaMatch [] = None"
| "rgbaMatch (c # cs) =
     (case match_here (c # cs) of Some m \<Rightarrow> Some m | None \<Rightarrow> rgbaMatch cs)"


section \<open>The configuration\<close>

text \<open>
  \<^verbatim>\<open>LiquidGlassOptions\<close>: what the caller passes, every field optional. The fields carry
  the names of the declaration with the suffix \<open>_opt\<close>.
\<close>

record LiquidGlassOptions =
  shadowOffset_opt :: "string option"
  shadowBlur_opt :: "string option"
  shadowSpread_opt :: "string option"
  shadowColor_opt :: "string option"
  tintColor_opt :: "string option"
  tintOpacity_opt :: "jsnum option"
  frostBlur_opt :: "string option"
  noiseFrequency_opt :: "jsnum option"
  distortionStrength_opt :: "jsnum option"
  outerShadowBlur_opt :: "string option"
  outerShadowColor_opt :: "string option"
  borderRadius_opt :: "string option"
  draggable_opt :: "bool option"

text \<open>The empty object \<^verbatim>\<open>{}\<close>, the default of the constructor's second parameter.\<close>

definition no_options :: LiquidGlassOptions where
  "no_options =
     \<lparr>shadowOffset_opt = None, shadowBlur_opt = None, shadowSpread_opt = None,
      shadowColor_opt = None, tintColor_opt = None, tintOpacity_opt = None,
      frostBlur_opt = None, noiseFrequency_opt = None, distortionStrength_opt = None,
      outerShadowBlur_opt = None, outerShadowColor_opt = None, borderRadius_opt = None,
      draggable_opt = None\<rparr>"

text \<open>\<^verbatim>\<open>this.options\<close>: every field holds a value.\<close>

record Configuration =
  shadowOffset :: string
  shadowBlur :: string
  shadowSpread :: string
  shadowColor :: string
  tintColor :: string
  tintOpacity :: jsnum
  frostBlur :: string
  noiseFrequency :: jsnum
  distortionStrength :: jsnum
  outerShadowBlur :: string
  outerShadowColor :: string
  borderRadius :: string
  draggable :: bool

text \<open>The defaults, as the constructor and the README's option table give them.\<close>

definition defaults :: Configuration where
  "defaults =
     \<lparr>shadowOffset = ''0px'', shadowBlur = ''20px'', shadowSpread = ''-5px'',
      shadowColor = ''rgba(255, 255, 255, 0.8)'', tintColor = ''rgba(255, 255, 255, 0.4)'',
      tintOpacity = Num (4 / 10), frostBlur = ''2px'', noiseFrequency = Num (8 / 1000),
      distortionStrength = Num 77, outerShadowBlur = ''24px'',
      outerShadowColor = ''rgba(0, 0, 0, 0.2)'', borderRadius = ''20px'',
      draggable = False\<rparr>"

text \<open>The object literal of the constructor: \<^verbatim>\<open>options.f || default\<close> for each field.\<close>

definition merge_options :: "LiquidGlassOptions \<Rightarrow> Configuration" where
  "merge_options opts =
     \<lparr>shadowOffset = or_str (shadowOffset_opt opts) ''0px'',
      shadowBlur = or_str (shadowBlur_opt opts) ''20px'',
      shadowSpread = or_str (shadowSpread_opt opts) ''-5px'',
      shadowColor = or_str (shadowColor_opt opts) ''rgba(255, 255, 255, 0.8)'',
      tintColor = or_str (tintColor_opt opts) ''rgba(255, 255, 255, 0.4)'',
      tintOpacity = or_num (tintOpacity_opt opts) (Num (4 / 10)),
      frostBlur = or_str (frostBlur_opt opts) ''2px'',
      noiseFrequency = or_num (noiseFrequency_opt opts) (Num (8 / 1000)),
      distortionStrength = or_num (distortionStrength_opt opts) (Num 77),
      outerShadowBlur = or_str (outerShadowBlur_opt opts) ''24px'',
      outerShadowColor = or_str (outerShadowColor_opt opts) ''rgba(0, 0, 0, 0.2)'',
      borderRadius = or_str (borderRadius_opt opts) ''20px'',
      draggable = or_bool (draggable_opt opts) False\<rparr>"

section \<open>The document\<close>

text \<open>
  The part of the DOM the class reads and writes. A surface is an element the caller
  owns: the class touches its class list and its inline style, which holds the custom
  properties and the plain properties (\<^verbatim>\<open>cursor\<close>, \<^verbatim>\<open>position\<close>, \<^verbatim>\<open>left\<close>, \<^verbatim>\<open>top\<close>) alike.
  The style is a store of texts by property name: \<^verbatim>\<open>setProperty\<close> and an assignment
  write, \<^verbatim>\<open>removeProperty\<close> deletes. A host does more with the text it is given: it
  removes the property when the text is empty, trims blanks, and ignores a text its
  grammar rejects (\<^verbatim>\<open>NaNpx\<close> for \<^verbatim>\<open>left\<close>). None of that is modelled, so the store agrees
  with a host on the texts a host keeps as they are, and the theorems assert a stored
  value for such texts only: fixed ones, or the plain texts of \<open>plain_text\<close> below.
  The lemmas that lead there are facts of the store.

  A \<^verbatim>\<open><filter>\<close> element lives in a heap under the reference the instance keeps; its
  three primitives are its children, held by value since nothing else refers to them.
  The \<^verbatim>\<open><svg>\<close> containers are the children of \<^verbatim>\<open>document.body\<close> in document order,
  each with the references of its own children. One counter hands out the references
  of the objects created. \<^verbatim>\<open>document.body\<close> is taken to exist.

  The listeners registered are kept as data. How the host dispatches an event to them
  is outside the model: a handler is a function of the state, which the host may call
  while its listener is registered. The stylesheet the module injects when it is loaded
  plays no part in what follows and is left out.
\<close>

type_synonym ref = nat

record element =
  classList :: "string set"
  style :: "string \<rightharpoonup> string"

record fe_node =
  fe_tag :: string
  fe_attrs :: "string \<rightharpoonup> string"

record filter_node =
  filter_attrs :: "string \<rightharpoonup> string"
  filter_children :: "fe_node list"

record svg_node =
  svg_attrs :: "string \<rightharpoonup> string"
  svg_style :: "string \<rightharpoonup> string"
  svg_children :: "ref list"

datatype target = OnElement ref | OnDocument

datatype handler = MouseDown | MouseMove | MouseUp

text \<open>A registered listener: where, for which event, and which closure of which call
  of \<^verbatim>\<open>makeDraggable\<close>.\<close>

type_synonym listener = "target \<times> string \<times> ref \<times> handler"

record document =
  elements :: "ref \<Rightarrow> element"
  body :: "svg_node list"
  filters :: "ref \<Rightarrow> filter_node"
  fresh :: ref
  listeners :: "listener list"

datatype error = Error string | TypeError string | DOMException string

text \<open>The instance, with the variables its drag closures share.\<close>

record LiquidGlass =
  element :: ref
  options :: Configuration
  svgFilterId :: string
  svgFilter :: "ref option"
  cleanup :: "ref option"
  isDragging :: bool
  startX :: "jsnum option"
  startY :: "jsnum option"
  initialX :: "jsnum option"
  initialY :: "jsnum option"

subsection \<open>Operations of the host\<close>

definition setProperty :: "ref \<Rightarrow> string \<Rightarrow> string \<Rightarrow> document \<Rightarrow> document" where
  "setProperty el name v d =
     d\<lparr>elements := (elements d)(el := (elements d el)\<lparr>style := (style (elements d el))(name \<mapsto> v)\<rparr>)\<rparr>"

definition removeProperty :: "ref \<Rightarrow> string \<Rightarrow> document \<Rightarrow> document" where
  "removeProperty el name d =
     d\<lparr>elements := (elements d)(el := (elements d el)\<lparr>style := (style (elements d el))(name := None)\<rparr>)\<rparr>"

definition classList_add :: "ref \<Rightarrow> string \<Rightarrow> document \<Rightarrow> document" where
  "classList_add el c d =
     d\<lparr>elements := (elements d)(el := (elements d el)\<lparr>classList := insert c (classList (elements d el))\<rparr>)\<rparr>"

definition classList_remove :: "ref \<Rightarrow> string \<Rightarrow> document \<Rightarrow> document" where
  "classList_remove el c d =
     d\<lparr>elements := (elements d)(el := (elements d el)\<lparr>classList := classList (elements d el) - {c}\<rparr>)\<rparr>"

text \<open>\<^verbatim>\<open>addEventListener\<close> registers a listener once; \<^verbatim>\<open>removeEventListener\<close> drops it.\<close>

definition addEventListener :: "listener \<Rightarrow> document \<Rightarrow> document" where
  "addEventListener l d =
     (if l \<in> set (listeners d) then d else d\<lparr>listeners := listeners d @ [l]\<rparr>)"

definition removeEventListener :: "listener \<Rightarrow> document \<Rightarrow> document" where
  "removeEventListener l d = d\<lparr>listeners := removeAll l (listeners d)\<rparr>"

text \<open>\<^verbatim>\<open>document.getElementById\<close> among the containers: the position in \<^verbatim>\<open>body\<close> of the
  first one that carries the identifier.\<close>

fun getElementById :: "string \<Rightarrow> svg_node list \<Rightarrow> nat option" where
  "getElementById ident [] = None"
| "getElementById ident (n # ns) =
     (if svg_attrs n ''id'' = Some ident then Some 0
      else map_option Suc (getElementById ident ns))"

text \<open>\<^verbatim>\<open>node.parentNode\<close> of a filter: the position of the container that holds it.\<close>

fun parentNode :: "ref \<Rightarrow> svg_node list \<Rightarrow> nat option" where
  "parentNode r [] = None"
| "parentNode r (n # ns) =
     (if r \<in> set (svg_children n) then Some 0 else map_option Suc (parentNode r ns))"

definition appendChild :: "nat \<Rightarrow> ref \<Rightarrow> document \<Rightarrow> document" where
  "appendChild k r d =
     d\<lparr>body := (body d)[k := (body d ! k)\<lparr>svg_children := svg_children (body d ! k) @ [r]\<rparr>]\<rparr>"

text \<open>\<^verbatim>\<open>parent.removeChild(node)\<close> raises \<^verbatim>\<open>NotFoundError\<close> when the node is not a child
  of the parent.\<close>

definition removeChild :: "nat \<Rightarrow> ref \<Rightarrow> document \<Rightarrow> error + document" where
  "removeChild k r d =
     (if k < length (body d) \<and> r \<in> set (svg_children (body d ! k))
      then Inr (d\<lparr>body := (body d)[k := (body d ! k)\<lparr>svg_children := removeAll r (svg_children (body d ! k))\<rparr>]\<rparr>)
      else Inl (DOMException ''NotFoundError''))"

text \<open>\<^verbatim>\<open>filter.querySelector(tag)\<close>: the first child with the tag; and
  \<^verbatim>\<open>setAttribute\<close> on that child.\<close>

definition querySelector :: "string \<Rightarrow> filter_node \<Rightarrow> fe_node option" where
  "querySelector tag f = find (\<lambda>c. fe_tag c = tag) (filter_children f)"

fun set_first :: "string \<Rightarrow> string \<Rightarrow> string \<Rightarrow> fe_node list \<Rightarrow> fe_node list" where
  "set_first tag name v [] = []"
| "set_first tag name v (c # cs) =
     (if fe_tag c = tag then c\<lparr>fe_attrs := (fe_attrs c)(name \<mapsto> v)\<rparr> # cs
      else c # set_first tag name v cs)"

definition setChildAttribute :: "ref \<Rightarrow> string \<Rightarrow> string \<Rightarrow> string \<Rightarrow> document \<Rightarrow> document" where
  "setChildAttribute r tag name v d =
     d\<lparr>filters := (filters d)(r := (filters d r)\<lparr>filter_children :=
          set_first tag name v (filter_children (filters d r))\<rparr>)\<rparr>"


section \<open>The class\<close>

type_synonym state = "LiquidGlass \<times> document"

subsection \<open>Construction\<close>

definition registry_id :: string where
  "registry_id = ''liquid-glass-svg-filters''"

definition new_container :: svg_node where
  "new_container =
     \<lparr>svg_attrs = [''id'' \<mapsto> registry_id],
      svg_style = [''position'' \<mapsto> ''absolute'', ''width'' \<mapsto> ''0'', ''height'' \<mapsto> ''0''],
      svg_children = []\<rparr>"

definition new_filter :: "LiquidGlass \<Rightarrow> filter_node" where
  "new_filter this =
     \<lparr>filter_attrs = [''id'' \<mapsto> svgFilterId this, ''x'' \<mapsto> ''0%'', ''y'' \<mapsto> ''0%'',
                      ''width'' \<mapsto> ''100%'', ''height'' \<mapsto> ''100%''],
      filter_children =
        [\<lparr>fe_tag = ''feTurbulence'',
          fe_attrs = [''type'' \<mapsto> ''fractalNoise'',
                      ''baseFrequency'' \<mapsto> number_to_string (noiseFrequency (options this)),
                      ''numOctaves'' \<mapsto> ''3'', ''result'' \<mapsto> ''noise'']\<rparr>,
         \<lparr>fe_tag = ''feGaussianBlur'',
          fe_attrs = [''in'' \<mapsto> ''noise'', ''stdDeviation'' \<mapsto> ''0.6'', ''result'' \<mapsto> ''blurred'']\<rparr>,
         \<lparr>fe_tag = ''feDisplacementMap'',
          fe_attrs = [''in'' \<mapsto> ''SourceGraphic'', ''in2'' \<mapsto> ''blurred'',
                      ''scale'' \<mapsto> number_to_string (distortionStrength (options this)),
                      ''xChannelSelector'' \<mapsto> ''R'', ''yChannelSelector'' \<mapsto> ''G'']\<rparr>]\<rparr>"

text \<open>\<^verbatim>\<open>createSVGFilter\<close>: find the container or create it at the end of the body, build
  the filter, append it to the container, keep its reference.\<close>

definition createSVGFilter :: "state \<Rightarrow> state" where
  "createSVGFilter s =
     (case s of (this, d) \<Rightarrow>
        let (k, d1) = (case getElementById registry_id (body d) of
                         None \<Rightarrow> (length (body d), d\<lparr>body := body d @ [new_container]\<rparr>)
                       | Some k \<Rightarrow> (k, d));
            r = fresh d1;
            d2 = d1\<lparr>filters := (filters d1)(r := new_filter this), fresh := Suc r\<rparr>
        in (this\<lparr>svgFilter := Some r\<rparr>, appendChild k r d2))"

definition applyStyles :: "state \<Rightarrow> state" where
  "applyStyles s =
     (case s of (this, d) \<Rightarrow>
        let el = element this; cfg = options this in
        (this,
         fold (\<lambda>(name, v). setProperty el name v)
           [(''--shadow-offset'', shadowOffset cfg),
            (''--shadow-blur'', shadowBlur cfg),
            (''--shadow-spread'', shadowSpread cfg),
            (''--shadow-color'', shadowColor cfg),
            (''--tint-color'', tintColor cfg),
            (''--frost-blur'', frostBlur cfg),
            (''--outer-shadow-blur'', outerShadowBlur cfg),
            (''--outer-shadow-color'', outerShadowColor cfg),
            (''--border-radius'', borderRadius cfg),
            (''--glass-filter-url'', ''url(#'' @ svgFilterId this @ '')'')] d))"

text \<open>The six registrations of \<^verbatim>\<open>makeDraggable\<close>, for the closures \<open>c\<close> on the element \<open>el\<close>.\<close>

definition drag_listeners :: "ref \<Rightarrow> ref \<Rightarrow> listener list" where
  "drag_listeners el c =
     [(OnElement el, ''mousedown'', c, MouseDown),
      (OnElement el, ''touchstart'', c, MouseDown),
      (OnDocument, ''mousemove'', c, MouseMove),
      (OnDocument, ''touchmove'', c, MouseMove),
      (OnDocument, ''mouseup'', c, MouseUp),
      (OnDocument, ''touchend'', c, MouseUp)]"

definition makeDraggable :: "state \<Rightarrow> state" where
  "makeDraggable s =
     (case s of (this, d) \<Rightarrow>
        let c = fresh d;
            d1 = setProperty (element this) ''cursor'' ''grab'' (d\<lparr>fresh := Suc c\<rparr>);
            d2 = fold addEventListener (drag_listeners (element this) c) d1
        in (this\<lparr>cleanup := Some c, isDragging := False, startX := None, startY := None,
                 initialX := None, initialY := None\<rparr>, d2))"

definition init :: "state \<Rightarrow> state" where
  "init s =
     (case s of (this, d) \<Rightarrow>
        let s1 = applyStyles (createSVGFilter (this, classList_add (element this) ''liquid-glass'' d))
        in if draggable (options this) then makeDraggable s1 else s1)"

text \<open>
  The constructor. \<open>None\<close> is an absent element. \<open>rnd\<close> is the text of
  \<^verbatim>\<open>Math.random().toString(36)\<close>, which the host draws. The result carries the document
  in both cases, so that what a failed construction leaves behind can be stated.
\<close>

definition construct ::
  "ref option \<Rightarrow> LiquidGlassOptions \<Rightarrow> string \<Rightarrow> document \<Rightarrow> (error + LiquidGlass) \<times> document" where
  "construct el opts rnd d =
     (case el of
        None \<Rightarrow> (Inl (Error ''LiquidGlass requires a valid DOM element''), d)
      | Some e \<Rightarrow>
          (case init (\<lparr>element = e, options = merge_options opts,
                       svgFilterId = ''glass-distortion-'' @ substr 2 9 rnd,
                       svgFilter = None, cleanup = None, isDragging = False,
                       startX = None, startY = None, initialX = None, initialY = None\<rparr>, d) of
             (this, d') \<Rightarrow> (Inr this, d')))"

subsection \<open>Dragging\<close>

record touch =
  touch_clientX :: jsnum
  touch_clientY :: jsnum

record event =
  clientX :: "jsnum option"
  clientY :: "jsnum option"
  touches :: "touch list option"

record rect =
  rect_left :: jsnum
  rect_top :: jsnum

text \<open>\<^verbatim>\<open>e.clientX || e.touches?.[0]?.clientX\<close>, and the same for \<^verbatim>\<open>clientY\<close>.\<close>

definition first_touch :: "event \<Rightarrow> touch option" where
  "first_touch e = (case touches e of None \<Rightarrow> None | Some [] \<Rightarrow> None | Some (t # ts) \<Rightarrow> Some t)"

definition pointerX :: "event \<Rightarrow> jsnum option" where
  "pointerX e =
     (case clientX e of
        Some n \<Rightarrow> if truthy_num n then Some n else map_option touch_clientX (first_touch e)
      | None \<Rightarrow> map_option touch_clientX (first_touch e))"

definition pointerY :: "event \<Rightarrow> jsnum option" where
  "pointerY e =
     (case clientY e of
        Some n \<Rightarrow> if truthy_num n then Some n else map_option touch_clientY (first_touch e)
      | None \<Rightarrow> map_option touch_clientY (first_touch e))"

text \<open>The three closures. \<open>onMouseDown\<close> takes the rectangle the host answers to
  \<^verbatim>\<open>getBoundingClientRect()\<close> at that instant.\<close>

definition onMouseDown :: "event \<Rightarrow> rect \<Rightarrow> state \<Rightarrow> state" where
  "onMouseDown e rc s =
     (case s of (this, d) \<Rightarrow>
        (this\<lparr>isDragging := True, startX := pointerX e, startY := pointerY e,
              initialX := Some (rect_left rc), initialY := Some (rect_top rc)\<rparr>,
         setProperty (element this) ''cursor'' ''grabbing'' d))"

definition onMouseMove :: "event \<Rightarrow> state \<Rightarrow> state" where
  "onMouseMove e s =
     (case s of (this, d) \<Rightarrow>
        if \<not> isDragging this then s
        else
          let deltaX = js_minus (to_number (pointerX e)) (to_number (startX this));
              deltaY = js_minus (to_number (pointerY e)) (to_number (startY this));
              el = element this;
              d1 = setProperty el ''position'' ''absolute'' d;
              d2 = setProperty el ''left''
                     (number_to_string (js_plus (to_number (initialX this)) deltaX) @ ''px'') d1
          in (this,
              setProperty el ''top''
                (number_to_string (js_plus (to_number (initialY this)) deltaY) @ ''px'') d2))"

definition onMouseUp :: "state \<Rightarrow> state" where
  "onMouseUp s =
     (case s of (this, d) \<Rightarrow>
        (this\<lparr>isDragging := False\<rparr>, setProperty (element this) ''cursor'' ''grab'' d))"

subsection \<open>Updates\<close>

text \<open>Each parameter of an update is a field of the destructured argument:
  \<open>None\<close> where the field is absent.\<close>

definition updateShadow ::
  "string option \<Rightarrow> string option \<Rightarrow> string option \<Rightarrow> string option \<Rightarrow> state \<Rightarrow> state" where
  "updateShadow blur spread color offset s =
     (let s1 = (case blur of None \<Rightarrow> s | Some v \<Rightarrow>
                  (case s of (this, d) \<Rightarrow>
                     (this\<lparr>options := (options this)\<lparr>shadowBlur := v\<rparr>\<rparr>,
                      setProperty (element this) ''--shadow-blur'' v d)));
          s2 = (case spread of None \<Rightarrow> s1 | Some v \<Rightarrow>
                  (case s1 of (this, d) \<Rightarrow>
                     (this\<lparr>options := (options this)\<lparr>shadowSpread := v\<rparr>\<rparr>,
                      setProperty (element this) ''--shadow-spread'' v d)));
          s3 = (case color of None \<Rightarrow> s2 | Some v \<Rightarrow>
                  (case s2 of (this, d) \<Rightarrow>
                     (this\<lparr>options := (options this)\<lparr>shadowColor := v\<rparr>\<rparr>,
                      setProperty (element this) ''--shadow-color'' v d)))
      in (case offset of None \<Rightarrow> s3 | Some v \<Rightarrow>
            (case s3 of (this, d) \<Rightarrow>
               (this\<lparr>options := (options this)\<lparr>shadowOffset := v\<rparr>\<rparr>,
                setProperty (element this) ''--shadow-offset'' v d))))"

definition updateTint :: "string option \<Rightarrow> jsnum option \<Rightarrow> state \<Rightarrow> state" where
  "updateTint color opacity s =
     (let s1 = (case color of None \<Rightarrow> s | Some v \<Rightarrow>
                  (case s of (this, d) \<Rightarrow>
                     (this\<lparr>options := (options this)\<lparr>tintColor := v\<rparr>\<rparr>,
                      setProperty (element this) ''--tint-color'' v d)))
      in (case opacity of None \<Rightarrow> s1 | Some a \<Rightarrow>
            (case s1 of (this, d) \<Rightarrow>
               (this\<lparr>options := (options this)\<lparr>tintOpacity := a\<rparr>\<rparr>,
                case rgbaMatch (tintColor (options this)) of
                  None \<Rightarrow> d
                | Some (r, g, b) \<Rightarrow>
                    setProperty (element this) ''--tint-color''
                      (''rgba('' @ r @ '', '' @ g @ '', '' @ b @ '', '' @ number_to_string a @ '')'') d))))"

definition updateFrost :: "string \<Rightarrow> state \<Rightarrow> state" where
  "updateFrost blur s =
     (case s of (this, d) \<Rightarrow>
        (this\<lparr>options := (options this)\<lparr>frostBlur := blur\<rparr>\<rparr>,
         setProperty (element this) ''--frost-blur'' blur d))"

text \<open>
  \<^verbatim>\<open>updateDistortion\<close> reads \<^verbatim>\<open>this.svgFilter.querySelector\<close>: a \<^verbatim>\<open>TypeError\<close> where
  \<^verbatim>\<open>this.svgFilter\<close> is undefined. The state an exception leaves is not kept.
\<close>

definition patch_stage :: "string \<Rightarrow> string \<Rightarrow> jsnum \<Rightarrow> state \<Rightarrow> error + state" where
  "patch_stage tag name v s =
     (case s of (this, d) \<Rightarrow>
        (case svgFilter this of
           None \<Rightarrow> Inl (TypeError ''Cannot read properties of undefined'')
         | Some r \<Rightarrow>
             Inr (this,
                  case querySelector tag (filters d r) of
                    None \<Rightarrow> d
                  | Some c \<Rightarrow> setChildAttribute r tag name (number_to_string v) d)))"

definition updateDistortion :: "jsnum option \<Rightarrow> jsnum option \<Rightarrow> state \<Rightarrow> error + state" where
  "updateDistortion frequency strength s =
     (case (case frequency of None \<Rightarrow> Inr s | Some f \<Rightarrow>
              (case s of (this, d) \<Rightarrow>
                 patch_stage ''feTurbulence'' ''baseFrequency'' f
                   (this\<lparr>options := (options this)\<lparr>noiseFrequency := f\<rparr>\<rparr>, d))) of
        Inl err \<Rightarrow> Inl err
      | Inr s1 \<Rightarrow>
          (case strength of None \<Rightarrow> Inr s1 | Some g \<Rightarrow>
             (case s1 of (this, d) \<Rightarrow>
                patch_stage ''feDisplacementMap'' ''scale'' g
                  (this\<lparr>options := (options this)\<lparr>distortionStrength := g\<rparr>\<rparr>, d))))"

definition updateOuterShadow :: "string option \<Rightarrow> string option \<Rightarrow> state \<Rightarrow> state" where
  "updateOuterShadow blur color s =
     (let s1 = (case blur of None \<Rightarrow> s | Some v \<Rightarrow>
                  (case s of (this, d) \<Rightarrow>
                     (this\<lparr>options := (options this)\<lparr>outerShadowBlur := v\<rparr>\<rparr>,
                      setProperty (element this) ''--outer-shadow-blur'' v d)))
      in (case color of None \<Rightarrow> s1 | Some v \<Rightarrow>
            (case s1 of (this, d) \<Rightarrow>
               (this\<lparr>options := (options this)\<lparr>outerShadowColor := v\<rparr>\<rparr>,
                setProperty (element this) ''--outer-shadow-color'' v d))))"

subsection \<open>Teardown\<close>

definition stylesToRemove :: "string list" where
  "stylesToRemove =
     [''--shadow-offset'', ''--shadow-blur'', ''--shadow-spread'', ''--shadow-color'',
      ''--tint-color'', ''--frost-blur'', ''--outer-shadow-blur'', ''--outer-shadow-color'',
      ''--border-radius'', ''--glass-filter-url'']"

text \<open>
  \<^verbatim>\<open>destroy\<close>: the filter leaves its parent when it has one, the class goes, the
  \<^verbatim>\<open>cleanup\<close> closure runs when there is one, the ten properties go. The instance
  itself is not written to.
\<close>

definition destroy :: "state \<Rightarrow> error + state" where
  "destroy s =
     (case s of (this, d) \<Rightarrow>
        (case (case svgFilter this of
                 None \<Rightarrow> Inr d
               | Some r \<Rightarrow>
                   (case parentNode r (body d) of
                      None \<Rightarrow> Inr d
                    | Some k \<Rightarrow> removeChild k r d)) of
           Inl err \<Rightarrow> Inl err
         | Inr d1 \<Rightarrow>
             let d2 = classList_remove (element this) ''liquid-glass'' d1;
                 d3 = (case cleanup this of
                         None \<Rightarrow> d2
                       | Some c \<Rightarrow> fold removeEventListener (drag_listeners (element this) c) d2)
             in Inr (this, fold (removeProperty (element this)) stylesToRemove d3)))"

section \<open>Scenarios and observations\<close>

text \<open>A document before the first construction: no container, no listener, every
  element with an empty class list and an empty inline style.\<close>

definition blank_document :: document where
  "blank_document =
     \<lparr>elements = (\<lambda>_. \<lparr>classList = {}, style = Map.empty\<rparr>), body = [],
      filters = (\<lambda>_. \<lparr>filter_attrs = Map.empty, filter_children = []\<rparr>),
      fresh = 0, listeners = []\<rparr>"

text \<open>The state a successful construction leaves: the instance and the document.\<close>

definition constructed :: "(error + LiquidGlass) \<times> document \<Rightarrow> state" where
  "constructed res = (projr (fst res), snd res)"

definition tinted :: state where
  "tinted = constructed (construct (Some 0)
     (no_options\<lparr>tintColor_opt := Some ''rgba(10,20,30,0.4)''\<rparr>) ''0.4fzyo82mvyr'' blank_document)"

definition gradient :: state where
  "gradient = constructed (construct (Some 0)
     (no_options\<lparr>tintColor_opt := Some ''linear-gradient(...)''\<rparr>) ''0.4fzyo82mvyr'' blank_document)"

text \<open>A mouse event at a point, and the gesture of the spec's drag test: pointer-down
  at (100, 100) on a surface whose rectangle starts at (50, 50), a move to (130, 140),
  then pointer-up.\<close>

definition mouse_at :: "rat \<Rightarrow> rat \<Rightarrow> event" where
  "mouse_at x y = \<lparr>clientX = Some (Num x), clientY = Some (Num y), touches = None\<rparr>"

definition gesture_down :: "state \<Rightarrow> state" where
  "gesture_down s = onMouseDown (mouse_at 100 100) \<lparr>rect_left = Num 50, rect_top = Num 50\<rparr> s"

definition gesture_move :: "state \<Rightarrow> state" where
  "gesture_move s = onMouseMove (mouse_at 130 140) (gesture_down s)"

definition gesture_up :: "state \<Rightarrow> state" where
  "gesture_up s = onMouseUp (gesture_move s)"

text \<open>The same pointer-down followed by a move to the left edge of the viewport, to
  (0, 140).\<close>

definition edge_move :: "state \<Rightarrow> state" where
  "edge_move s = onMouseMove (mouse_at 0 140) (gesture_down s)"

definition draggable_surface :: state where
  "draggable_surface = constructed (construct (Some 0)
     (no_options\<lparr>draggable_opt := Some True\<rparr>) ''0.4fzyo82mvyr'' blank_document)"

text \<open>Reading a stage parameter back:
  \<^verbatim>\<open>this.svgFilter.querySelector(tag).getAttribute(name)\<close>; and whether both stages the
  updates patch are there.\<close>

definition getChildAttribute :: "string \<Rightarrow> string \<Rightarrow> state \<Rightarrow> string option" where
  "getChildAttribute tag name s =
     (case svgFilter (fst s) of
        None \<Rightarrow> None
      | Some r \<Rightarrow>
          (case querySelector tag (filters (snd s) r) of
             None \<Rightarrow> None
           | Some c \<Rightarrow> fe_attrs c name))"

definition stages_present :: "state \<Rightarrow> bool" where
  "stages_present s =
     (case svgFilter (fst s) of
        None \<Rightarrow> False
      | Some r \<Rightarrow>
          querySelector ''feTurbulence'' (filters (snd s) r) \<noteq> None \<and>
          querySelector ''feDisplacementMap'' (filters (snd s) r) \<noteq> None)"

text \<open>The DOM keeps every node under at most one parent, once: no filter reference
  occurs twice among the children of the containers.\<close>

definition single_parent :: "document \<Rightarrow> bool" where
  "single_parent d = distinct (concat (map svg_children (body d)))"

text \<open>The children of the containers once the removal step of \<open>destroy\<close> has run.\<close>

definition detached_body :: "LiquidGlass \<Rightarrow> document \<Rightarrow> svg_node list" where
  "detached_body this d =
     (case svgFilter this of
        None \<Rightarrow> body d
      | Some r \<Rightarrow>
          (case parentNode r (body d) of
             None \<Rightarrow> body d
           | Some k \<Rightarrow> (body d)[k := (body d ! k)\<lparr>svg_children := removeAll r (svg_children (body d ! k))\<rparr>]))"

text \<open>A text every host keeps as it is when it is given as the value of a custom
  property: it is not empty and is made of small letters, digits and the signs
  \<^verbatim>\<open>-\<close>, \<^verbatim>\<open>.\<close>, \<^verbatim>\<open>%\<close> and \<^verbatim>\<open>#\<close> only, so there is no blank to trim, no keyword to put in
  small letters and no token a CSS parser rejects.\<close>

definition plain_char :: "char \<Rightarrow> bool" where
  "plain_char c =
     (c \<in> set ''abcdefghijklmnopqrstuvwxyz0123456789-.%#'')"

definition plain_text :: "string \<Rightarrow> bool" where
  "plain_text v = (v \<noteq> [] \<and> list_all plain_char v)"

text \<open>Two runs of an update write the same: each inline property of the element ends
  with the same value in both, or is left in both as it was.\<close>

definition same_writes :: "ref \<Rightarrow> document \<Rightarrow> document \<Rightarrow> document \<Rightarrow> document \<Rightarrow> bool" where
  "same_writes el d1 d1' d2 d2' =
     (\<forall>p. style (elements d1' el) p = style (elements d2' el) p \<or>
          (style (elements d1' el) p = style (elements d1 el) p \<and>
           style (elements d2' el) p = style (elements d2 el) p))"

text \<open>A session: constructions one after the other on the same document, each with its
  element, its options and the random text it draws. The token is the part of that
  text the identifier keeps.\<close>

fun construct_all :: "(ref \<times> LiquidGlassOptions \<times> string) list \<Rightarrow> document \<Rightarrow> LiquidGlass list \<times> document" where
  "construct_all [] d = ([], d)"
| "construct_all ((el, opts, rnd) # cs) d =
     (case construct (Some el) opts rnd d of
        (Inl err, d') \<Rightarrow> ([], d')
      | (Inr this, d') \<Rightarrow> (case construct_all cs d' of (insts, d'') \<Rightarrow> (this # insts, d'')))"

text \<open>The containers that carry the registry's identifier, and the filter an identifier
  resolves to: the first one in document order among the children of the containers,
  as \<^verbatim>\<open>url(#id)\<close> and \<^verbatim>\<open>getElementById\<close> find it.\<close>

definition registries :: "document \<Rightarrow> svg_node list" where
  "registries d = filter (\<lambda>n. svg_attrs n ''id'' = Some registry_id) (body d)"

definition filter_by_id :: "string \<Rightarrow> document \<Rightarrow> ref option" where
  "filter_by_id ident d =
     find (\<lambda>r. filter_attrs (filters d r) ''id'' = Some ident) (concat (map svg_children (body d)))"

definition token :: "ref \<times> LiquidGlassOptions \<times> string \<Rightarrow> string" where
  "token c = substr 2 9 (snd (snd c))"

text \<open>Two constructions whose random texts differ and agree on the nine characters
  kept; and three constructions with different tokens, two of them on one element.\<close>

definition colliding :: "LiquidGlass list \<times> document" where
  "colliding = construct_all
     [(0, no_options, ''0.4fzyo82mvyr''), (1, no_options, ''0.4fzyo82mvzz'')] blank_document"

definition three_constructions :: "(ref \<times> LiquidGlassOptions \<times> string) list" where
  "three_constructions =
     [(0, no_options, ''0.4fzyo82mvyr''),
      (1, no_options\<lparr>draggable_opt := Some True\<rparr>, ''0.k2j5x0aa1bq''),
      (0, no_options, ''0.zzz'')]"

definition three_surfaces :: "LiquidGlass list \<times> document" where
  "three_surfaces = construct_all three_constructions blank_document"

section \<open>Basic facts\<close>

declare rgbaMatch.simps [simp del] number_to_string.simps [simp del]

lemma number_to_string_0_9: "number_to_string (Num (9 / 10)) = ''0.9''"
  by code_simp

lemma rgbaMatch_10_20_30: "rgbaMatch ''rgba(10,20,30,0.4)'' = Some (''10'', ''20'', ''30'')"
  by code_simp

lemma rgbaMatch_gradient: "rgbaMatch ''linear-gradient(...)'' = None"
  by code_simp

lemma style_setProperty [simp]:
  "style (elements (setProperty el name v d) el') =
     (if el' = el then (style (elements d el))(name \<mapsto> v) else style (elements d el'))"
  by (simp add: setProperty_def)

lemma fresh_setProperty [simp]: "fresh (setProperty el n v d) = fresh d"
  by (simp add: setProperty_def)

lemma fresh_classList_add [simp]: "fresh (classList_add el c d) = fresh d"
  by (simp add: classList_add_def)

subsection \<open>The instance a construction returns\<close>

lemma fst_createSVGFilter [simp]:
  "fst (createSVGFilter (this, d)) = this\<lparr>svgFilter := Some (fresh d)\<rparr>"
  by (simp add: createSVGFilter_def Let_def split: option.split prod.split)

lemma fresh_createSVGFilter [simp]: "fresh (snd (createSVGFilter (this, d))) = Suc (fresh d)"
  by (simp add: createSVGFilter_def appendChild_def Let_def split: option.split prod.split)

lemma fst_applyStyles [simp]: "fst (applyStyles s) = fst s"
  by (simp add: applyStyles_def Let_def split: prod.split)

lemma fresh_applyStyles [simp]: "fresh (snd (applyStyles s)) = fresh (snd s)"
  by (simp add: applyStyles_def Let_def split: prod.split)

lemma fst_makeDraggable [simp]:
  "fst (makeDraggable s) =
     (fst s)\<lparr>cleanup := Some (fresh (snd s)), isDragging := False, startX := None,
             startY := None, initialX := None, initialY := None\<rparr>"
  by (simp add: makeDraggable_def Let_def split: prod.split)

lemma construct_instance:
  "fst (construct (Some e) opts rnd d) =
     Inr \<lparr>element = e, options = merge_options opts,
          svgFilterId = ''glass-distortion-'' @ substr 2 9 rnd,
          svgFilter = Some (fresh d),
          cleanup = (if draggable (merge_options opts) then Some (Suc (fresh d)) else None),
          isDragging = False, startX = None, startY = None, initialX = None,
          initialY = None\<rparr>"
  by (simp add: construct_def init_def Let_def case_prod_beta)

section \<open>Construction\<close>

text \<open>
  C1, as far as the code goes: the constructor fills a field with \<^verbatim>\<open>options.f || default\<close>,
  so a falsy value the caller supplies is replaced by the default instead of being kept.
  A distortion strength of \<open>0\<close> becomes \<open>77\<close>, a noise frequency of \<open>0\<close> becomes \<open>0.008\<close>,
  a tint opacity of \<open>0\<close> becomes \<open>0.4\<close> and an empty shadow offset becomes \<^verbatim>\<open>0px\<close>.
\<close>

theorem construct_drops_falsy_options:
  "distortionStrength (options (projr (fst (construct (Some el)
      (no_options\<lparr>distortionStrength_opt := Some (Num 0)\<rparr>) rnd d)))) = Num 77
   \<and> noiseFrequency (options (projr (fst (construct (Some el)
      (no_options\<lparr>noiseFrequency_opt := Some (Num 0)\<rparr>) rnd d)))) = Num (8 / 1000)
   \<and> tintOpacity (options (projr (fst (construct (Some el)
      (no_options\<lparr>tintOpacity_opt := Some (Num 0)\<rparr>) rnd d)))) = Num (4 / 10)
   \<and> shadowOffset (options (projr (fst (construct (Some el)
      (no_options\<lparr>shadowOffset_opt := Some ''''\<rparr>) rnd d)))) = ''0px''"
  by (simp add: construct_instance merge_options_def no_options_def or_num_def or_str_def)

text \<open>
  C3: whatever the options, the random text and the document, a construction without an
  element fails with the one error the constructor throws (the spec's
  \<^verbatim>\<open>InvalidTargetError\<close>), returns no instance and leaves the document as it was: no style
  is written, no filter is created, no container appears.
\<close>

theorem construct_null_fails:
  "construct None opts rnd d = (Inl (Error ''LiquidGlass requires a valid DOM element''), d)"
  by (simp add: construct_def)

section \<open>Tint\<close>

lemma updateTint_opacity_only:
  "updateTint None (Some a) s =
     ((fst s)\<lparr>options := (options (fst s))\<lparr>tintOpacity := a\<rparr>\<rparr>,
      case rgbaMatch (tintColor (options (fst s))) of
        None \<Rightarrow> snd s
      | Some (r, g, b) \<Rightarrow>
          setProperty (element (fst s)) ''--tint-color''
            (''rgba('' @ r @ '', '' @ g @ '', '' @ b @ '', '' @ number_to_string a @ '')'') (snd s))"
  by (simp add: updateTint_def case_prod_beta split: option.split)

lemma tinted_tintColor: "tintColor (options (fst tinted)) = ''rgba(10,20,30,0.4)''"
  by (simp add: tinted_def constructed_def construct_instance merge_options_def no_options_def or_str_def)

lemma gradient_tintColor: "tintColor (options (fst gradient)) = ''linear-gradient(...)''"
  by (simp add: gradient_def constructed_def construct_instance merge_options_def no_options_def or_str_def)




section \<open>Dragging\<close>

lemma number_to_string_80: "number_to_string (Num 80) = ''80''"
  by code_simp
lemma number_to_string_90: "number_to_string (Num 90) = ''90''"
  by code_simp
lemma number_to_string_0_02: "number_to_string (Num (2 / 100)) = ''0.02''"
  by code_simp
lemma number_to_string_120: "number_to_string (Num 120) = ''120''"
  by code_simp

lemma construct_Some:
  "construct (Some e) opts rnd d =
     (Inr (fst (constructed (construct (Some e) opts rnd d))),
      snd (constructed (construct (Some e) opts rnd d)))"
  by (simp add: constructed_def construct_def case_prod_beta)

lemma pointer_mouse_at [simp]:
  "x \<noteq> 0 \<Longrightarrow> pointerX (mouse_at x y) = Some (Num x)"
  "y \<noteq> 0 \<Longrightarrow> pointerY (mouse_at x y) = Some (Num y)"
  by (simp_all add: pointerX_def pointerY_def mouse_at_def)

lemma onMouseMove_idle: "\<not> isDragging (fst s) \<Longrightarrow> onMouseMove e s = s"
  by (simp add: onMouseMove_def case_prod_beta)

lemma fold_onMouseMove_idle: "\<not> isDragging (fst s) \<Longrightarrow> fold onMouseMove es s = s"
  by (induction es) (simp_all add: onMouseMove_idle)

lemma isDragging_onMouseUp [simp]: "\<not> isDragging (fst (onMouseUp s))"
  by (simp add: onMouseUp_def case_prod_beta)

lemma gesture_move_style:
  "style (elements (snd (gesture_move (this, d))) (element this)) =
     (style (elements d (element this)))
       (''cursor'' \<mapsto> ''grabbing'', ''position'' \<mapsto> ''absolute'', ''left'' \<mapsto> ''80px'', ''top'' \<mapsto> ''90px'')"
  by (simp add: gesture_move_def gesture_down_def onMouseMove_def onMouseDown_def Let_def
      number_to_string_80 number_to_string_90)

lemma listeners_setProperty [simp]: "listeners (setProperty el n v d) = listeners d"
  by (simp add: setProperty_def)

lemma listeners_fold_add:
  "l \<in> set ls \<or> l \<in> set (listeners d) \<Longrightarrow> l \<in> set (listeners (fold addEventListener ls d))"
  by (induction ls arbitrary: d) (auto simp: addEventListener_def)

lemma listeners_makeDraggable:
  "l \<in> set (drag_listeners (element (fst s)) (fresh (snd s))) \<Longrightarrow>
   l \<in> set (listeners (snd (makeDraggable s)))"
  by (simp add: makeDraggable_def Let_def case_prod_beta listeners_fold_add)

lemma construct_draggable_listeners:
  assumes "draggable_opt opts = Some True" and "construct (Some el) opts rnd d0 = (Inr this, d)"
  shows "\<exists>c. cleanup this = Some c \<and> element this = el \<and> set (drag_listeners el c) \<subseteq> set (listeners d)"
proof -
  have dr: "draggable (merge_options opts)"
    using assms(1) by (simp add: merge_options_def or_bool_def)
  have t: "this = projr (fst (construct (Some el) opts rnd d0))" and d: "d = snd (construct (Some el) opts rnd d0)"
    using assms(2) by simp_all
  have c: "cleanup this = Some (Suc (fresh d0))" and e: "element this = el"
    using dr by (simp_all add: t construct_instance)
  have "set (drag_listeners el (Suc (fresh d0))) \<subseteq> set (listeners d)"
    unfolding d using dr
    by (auto simp add: construct_def init_def Let_def case_prod_beta intro!: listeners_makeDraggable)
  with c e show ?thesis by blast
qed

text \<open>The gesture of the spec's drag test runs as the spec says: on a surface
  constructed with \<^verbatim>\<open>draggable: true\<close>, whose six listeners are then registered,
  pointer-down at (100, 100) with the rectangle at (50, 50) followed by a move to
  (130, 140) writes \<^verbatim>\<open>left: 80px\<close> and \<^verbatim>\<open>top: 90px\<close>, and after pointer-up no sequence of
  further moves changes the state.\<close>

lemma drag_gesture_example:
  assumes "draggable_opt opts = Some True"
    and "construct (Some el) opts rnd d0 = (Inr this, d)"
  shows "style (elements (snd (gesture_move (this, d))) el) ''left'' = Some ''80px'' \<and>
         style (elements (snd (gesture_move (this, d))) el) ''top'' = Some ''90px'' \<and>
         fold onMouseMove es (gesture_up (this, d)) = gesture_up (this, d) \<and>
         (\<exists>c. cleanup this = Some c \<and> set (drag_listeners el c) \<subseteq> set (listeners d))"
proof -
  from construct_draggable_listeners [OF assms] obtain c
    where c: "cleanup this = Some c" "element this = el" "set (drag_listeners el c) \<subseteq> set (listeners d)"
    by blast
  have "style (elements (snd (gesture_move (this, d))) el) ''left'' = Some ''80px''"
       "style (elements (snd (gesture_move (this, d))) el) ''top'' = Some ''90px''"
    using gesture_move_style [of this d] by (simp_all add: c(2))
  moreover have "fold onMouseMove es (gesture_up (this, d)) = gesture_up (this, d)"
    by (rule fold_onMouseMove_idle) (simp add: gesture_up_def)
  ultimately show ?thesis using c by blast
qed

lemma drag_gesture_on_surface:
  "style (elements (snd (gesture_move draggable_surface)) 0) ''left'' = Some ''80px'' \<and>
   style (elements (snd (gesture_move draggable_surface)) 0) ''top'' = Some ''90px'' \<and>
   fold onMouseMove [mouse_at 200 300, mouse_at 1 2] (gesture_up draggable_surface) =
     gesture_up draggable_surface"
  using drag_gesture_example [OF _ construct_Some, of "no_options\<lparr>draggable_opt := Some True\<rparr>" 0
      "''0.4fzyo82mvyr''" blank_document "[mouse_at 200 300, mouse_at 1 2]"]
  by (simp add: draggable_surface_def)

text \<open>
  C6, amended: pointer-down starts the drag and leaves the inline \<^verbatim>\<open>position\<close> of every
  element as it was; it is the move handler that sets \<^verbatim>\<open>position: absolute\<close>, on the
  first move processed while dragging.
\<close>

theorem position_switch:
  "style (elements (snd (onMouseDown e rc (this, d))) el) ''position'' =
     style (elements d el) ''position'' \<and>
   isDragging (fst (onMouseDown e rc (this, d))) \<and>
   style (elements (snd (onMouseMove e' (onMouseDown e rc (this, d)))) (element this)) ''position'' =
     Some ''absolute''"
  by (simp add: onMouseDown_def onMouseMove_def Let_def)

subsection \<open>The surface after a construction\<close>

lemma elements_createSVGFilter [simp]: "elements (snd (createSVGFilter s)) = elements (snd s)"
  by (simp add: createSVGFilter_def appendChild_def Let_def case_prod_beta split: option.split)

lemma elements_fold_addEventListener [simp]:
  "elements (fold addEventListener ls d) = elements d"
  by (induction ls arbitrary: d) (simp_all add: addEventListener_def)

lemma style_classList_add [simp]:
  "style (elements (classList_add el c d) e) = style (elements d e)"
  by (simp add: classList_add_def)

lemma elements_fresh_update [simp]: "elements (d\<lparr>fresh := n\<rparr>) = elements d"
  by simp

lemma construct_style:
  "style (elements (snd (construct (Some e) opts rnd d)) e) =
     (let cfg = merge_options opts;
          vars = (style (elements d e))
            (''--shadow-offset'' \<mapsto> shadowOffset cfg,
             ''--shadow-blur'' \<mapsto> shadowBlur cfg,
             ''--shadow-spread'' \<mapsto> shadowSpread cfg,
             ''--shadow-color'' \<mapsto> shadowColor cfg,
             ''--tint-color'' \<mapsto> tintColor cfg,
             ''--frost-blur'' \<mapsto> frostBlur cfg,
             ''--outer-shadow-blur'' \<mapsto> outerShadowBlur cfg,
             ''--outer-shadow-color'' \<mapsto> outerShadowColor cfg,
             ''--border-radius'' \<mapsto> borderRadius cfg,
             ''--glass-filter-url'' \<mapsto> ''url(#'' @ ''glass-distortion-'' @ substr 2 9 rnd @ '')'')
      in if draggable cfg then vars(''cursor'' \<mapsto> ''grab'') else vars)"
  by (simp add: construct_def init_def applyStyles_def makeDraggable_def Let_def case_prod_beta)

lemma draggable_surface_position:
  "style (elements (snd draggable_surface) 0) ''position'' = None"
  by (simp add: draggable_surface_def constructed_def construct_style Let_def blank_document_def)

lemma draggable_surface_element: "element (fst draggable_surface) = 0"
  by (simp add: draggable_surface_def constructed_def construct_instance)

text \<open>
  C6 as the spec words it fails: right after the first pointer-down on a draggable
  surface the drag is active and the inline \<^verbatim>\<open>position\<close> is not \<^verbatim>\<open>absolute\<close>.
\<close>

theorem position_switch_counterexample:
  "isDragging (fst (gesture_down draggable_surface)) \<and>
   style (elements (snd (gesture_down draggable_surface)) (element (fst draggable_surface)))
     ''position'' \<noteq> Some ''absolute''"
  by (simp add: gesture_down_def onMouseDown_def case_prod_beta draggable_surface_position
      draggable_surface_element)

subsection \<open>A drag to the left edge\<close>

lemma number_to_string_NaN_px: "number_to_string NaN @ ''px'' = ''NaNpx''"
  by (simp add: number_to_string.simps)

lemma pointerX_left_edge: "pointerX (mouse_at 0 y) = None"
  by (simp add: pointerX_def mouse_at_def first_touch_def)

lemma draggable_surface_style:
  "style (elements (snd draggable_surface) 0) ''left'' = None"
  "style (elements (snd draggable_surface) 0) ''top'' = None"
  "element (fst draggable_surface) = 0"
  by (simp_all add: draggable_surface_def constructed_def construct_style construct_instance
      Let_def blank_document_def)

text \<open>
  C5, where the code leaves the rule: the drag of the spec's test, pointer-down at
  (100, 100) on the surface at (50, 50), carried on to the left edge of the viewport by
  a move to (0, 140). The coordinate \<open>0\<close> is falsy, so
  \<^verbatim>\<open>e.clientX || e.touches?.[0]?.clientX\<close> reads the pointer as \<^verbatim>\<open>undefined\<close>, the difference
  is \<^verbatim>\<open>NaN\<close> and the text the handler assigns to \<^verbatim>\<open>left\<close> is \<^verbatim>\<open>NaNpx\<close>. The vertical part
  follows the rule (\<^verbatim>\<open>top: 90px\<close>); the horizontal part, which the rule puts at
  \<open>50 + (0 - 100) = -50\<close>, is not \<^verbatim>\<open>-50px\<close>.
\<close>

theorem drag_to_left_edge:
  "pointerX (mouse_at 0 140) = None \<and>
   isDragging (fst (gesture_down draggable_surface)) \<and>
   startX (fst (gesture_down draggable_surface)) = Some (Num 100) \<and>
   initialX (fst (gesture_down draggable_surface)) = Some (Num 50) \<and>
   number_to_string
     (js_plus (to_number (initialX (fst (gesture_down draggable_surface))))
        (js_minus (to_number (pointerX (mouse_at 0 140)))
           (to_number (startX (fst (gesture_down draggable_surface)))))) @ ''px'' = ''NaNpx'' \<and>
   style (elements (snd (edge_move draggable_surface)) 0) ''top'' = Some ''90px'' \<and>
   style (elements (snd (edge_move draggable_surface)) 0) ''left'' \<noteq> Some ''-50px''"
  by (simp add: edge_move_def gesture_down_def onMouseMove_def onMouseDown_def Let_def
      case_prod_beta pointerX_left_edge draggable_surface_style number_to_string_NaN_px
      number_to_string_90)

section \<open>Distortion\<close>

lemma find_set_first_same:
  "find (\<lambda>c. fe_tag c = tag) (set_first tag name v cs) =
     map_option (\<lambda>c. c\<lparr>fe_attrs := (fe_attrs c)(name \<mapsto> v)\<rparr>) (find (\<lambda>c. fe_tag c = tag) cs)"
  by (induction cs) (simp_all add: fun_upd_def)

lemma find_set_first_other:
  "tag' \<noteq> tag \<Longrightarrow>
   find (\<lambda>c. fe_tag c = tag') (set_first tag name v cs) = find (\<lambda>c. fe_tag c = tag') cs"
  by (induction cs) simp_all

lemma querySelector_setChildAttribute:
  "querySelector tag' (filters (setChildAttribute r tag name v d) r) =
     (if tag' = tag
      then map_option (\<lambda>c. c\<lparr>fe_attrs := (fe_attrs c)(name \<mapsto> v)\<rparr>) (querySelector tag (filters d r))
      else querySelector tag' (filters d r))"
  by (simp add: querySelector_def setChildAttribute_def find_set_first_same find_set_first_other)

lemma patch_stage_present:
  assumes "svgFilter this = Some r" and "querySelector tag (filters d r) = Some c"
  shows "patch_stage tag name v (this, d) =
           Inr (this, setChildAttribute r tag name (number_to_string v) d)"
  using assms by (simp add: patch_stage_def)

lemma updateDistortion_none: "updateDistortion None None s = Inr s"
  by (simp add: updateDistortion_def)

lemma updateDistortion_both:
  assumes "stages_present (this, d)"
  shows "\<exists>r. svgFilter this = Some r \<and>
     updateDistortion (Some f) (Some g) (this, d) =
       Inr (this\<lparr>options := (options this)\<lparr>noiseFrequency := f, distortionStrength := g\<rparr>\<rparr>,
            setChildAttribute r ''feDisplacementMap'' ''scale'' (number_to_string g)
              (setChildAttribute r ''feTurbulence'' ''baseFrequency'' (number_to_string f) d))"
proof -
  from assms obtain r c1 c2 where r: "svgFilter this = Some r"
    and c1: "querySelector ''feTurbulence'' (filters d r) = Some c1"
    and c2: "querySelector ''feDisplacementMap'' (filters d r) = Some c2"
    by (auto simp: stages_present_def split: option.splits)
  have c2': "querySelector ''feDisplacementMap''
               (filters (setChildAttribute r ''feTurbulence'' ''baseFrequency'' (number_to_string f) d) r) = Some c2"
    by (simp add: querySelector_setChildAttribute c2)
  show ?thesis
    by (simp add: updateDistortion_def r patch_stage_present [OF _ c1] patch_stage_present [OF _ c2'])
qed

lemma filters_setProperty [simp]: "filters (setProperty el n v d) = filters d"
  by (simp add: setProperty_def)

lemma filters_fold_addEventListener [simp]:
  "filters (fold addEventListener ls d) = filters d"
  by (induction ls arbitrary: d) (simp_all add: addEventListener_def)

lemma filters_createSVGFilter [simp]:
  "filters (snd (createSVGFilter (this, d))) = (filters d)(fresh d := new_filter this)"
  by (simp add: createSVGFilter_def appendChild_def Let_def case_prod_beta split: option.split)

lemma filters_applyStyles [simp]: "filters (snd (applyStyles s)) = filters (snd s)"
  by (simp add: applyStyles_def Let_def case_prod_beta)

lemma filters_makeDraggable [simp]: "filters (snd (makeDraggable s)) = filters (snd s)"
  by (simp add: makeDraggable_def Let_def case_prod_beta)

lemma construct_filters:
  "filters (snd (construct (Some e) opts rnd d)) (fresh d) =
     new_filter (projr (fst (construct (Some e) opts rnd d)) \<lparr>svgFilter := None, cleanup := None\<rparr>)"
  by (simp add: construct_def init_def Let_def case_prod_beta new_filter_def)

lemma construct_stages_present:
  "stages_present (constructed (construct (Some e) opts rnd d))"
  by (simp add: stages_present_def constructed_def construct_instance construct_filters
      new_filter_def querySelector_def)

lemma updateDistortion_read_back:
  assumes "stages_present (this, d)"
  shows "\<exists>s'. updateDistortion (Some f) (Some g) (this, d) = Inr s' \<and>
            getChildAttribute ''feTurbulence'' ''baseFrequency'' s' = Some (number_to_string f) \<and>
            getChildAttribute ''feDisplacementMap'' ''scale'' s' = Some (number_to_string g) \<and>
            noiseFrequency (options (fst s')) = f \<and>
            distortionStrength (options (fst s')) = g"
proof -
  from assms obtain r c1 c2 where r: "svgFilter this = Some r"
    and c1: "querySelector ''feTurbulence'' (filters d r) = Some c1"
    and c2: "querySelector ''feDisplacementMap'' (filters d r) = Some c2"
    by (auto simp: stages_present_def split: option.splits)
  from updateDistortion_both [OF assms, of f g] r
  have u: "updateDistortion (Some f) (Some g) (this, d) =
       Inr (this\<lparr>options := (options this)\<lparr>noiseFrequency := f, distortionStrength := g\<rparr>\<rparr>,
            setChildAttribute r ''feDisplacementMap'' ''scale'' (number_to_string g)
              (setChildAttribute r ''feTurbulence'' ''baseFrequency'' (number_to_string f) d))"
    by simp
  show ?thesis
    by (simp add: u getChildAttribute_def r querySelector_setChildAttribute c1 c2)
qed

text \<open>
  C8: on an instance whose filter has its noise and displacement stages, as every
  constructed instance has, \<^verbatim>\<open>updateDistortion({frequency: 0.02, strength: 120})\<close>
  succeeds, the two stage parameters read back as \<^verbatim>\<open>0.02\<close> and \<^verbatim>\<open>120\<close> and the two
  stored fields hold the same numbers; \<^verbatim>\<open>updateDistortion({})\<close> returns the state
  unchanged.
\<close>

theorem distortion_round_trip:
  assumes "stages_present (this, d)"
  shows "(\<exists>s'. updateDistortion (Some (Num (2 / 100))) (Some (Num 120)) (this, d) = Inr s' \<and>
            getChildAttribute ''feTurbulence'' ''baseFrequency'' s' = Some ''0.02'' \<and>
            getChildAttribute ''feDisplacementMap'' ''scale'' s' = Some ''120'' \<and>
            noiseFrequency (options (fst s')) = Num (2 / 100) \<and>
            distortionStrength (options (fst s')) = Num 120) \<and>
         updateDistortion None None (this, d) = Inr (this, d)"
  using updateDistortion_read_back [OF assms, of "Num (2 / 100)" "Num 120"]
    number_to_string_0_02 number_to_string_120
  by (simp add: updateDistortion_none)

theorem distortion_round_trip_witness:
  "stages_present tinted \<and>
   (\<exists>s'. updateDistortion (Some (Num (2 / 100))) (Some (Num 120)) tinted = Inr s' \<and>
      getChildAttribute ''feTurbulence'' ''baseFrequency'' s' = Some ''0.02'' \<and>
      getChildAttribute ''feDisplacementMap'' ''scale'' s' = Some ''120'') \<and>
   updateDistortion None None tinted = Inr tinted"
proof -
  have p: "stages_present (fst tinted, snd tinted)"
    unfolding tinted_def by (simp add: construct_stages_present)
  from distortion_round_trip [OF p] p show ?thesis by auto
qed

section \<open>Teardown\<close>

lemma removeProperty_frame [simp]:
  "body (removeProperty el p d) = body d"
  "filters (removeProperty el p d) = filters d"
  "fresh (removeProperty el p d) = fresh d"
  "listeners (removeProperty el p d) = listeners d"
  "classList (elements (removeProperty el p d) e) = classList (elements d e)"
  "style (elements (removeProperty el p d) e) =
     (if e = el then (style (elements d el))(p := None) else style (elements d e))"
  by (simp_all add: removeProperty_def)

lemma fold_removeProperty_frame [simp]:
  "body (fold (removeProperty el) ps d) = body d"
  "filters (fold (removeProperty el) ps d) = filters d"
  "fresh (fold (removeProperty el) ps d) = fresh d"
  "listeners (fold (removeProperty el) ps d) = listeners d"
  "classList (elements (fold (removeProperty el) ps d) e) = classList (elements d e)"
  by (induction ps arbitrary: d) simp_all

lemma style_fold_removeProperty:
  "style (elements (fold (removeProperty el) ps d) e) p =
     (if e = el \<and> p \<in> set ps then None else style (elements d e) p)"
  by (induction ps arbitrary: d) auto

lemma removeEventListener_frame [simp]:
  "body (removeEventListener l d) = body d"
  "filters (removeEventListener l d) = filters d"
  "fresh (removeEventListener l d) = fresh d"
  "elements (removeEventListener l d) = elements d"
  by (simp_all add: removeEventListener_def)

lemma fold_removeEventListener_frame [simp]:
  "body (fold removeEventListener ls d) = body d"
  "filters (fold removeEventListener ls d) = filters d"
  "fresh (fold removeEventListener ls d) = fresh d"
  "elements (fold removeEventListener ls d) = elements d"
  by (induction ls arbitrary: d) simp_all

lemma listeners_fold_removeEventListener:
  "listeners (fold removeEventListener ls d) = filter (\<lambda>l. l \<notin> set ls) (listeners d)"
proof (induction ls arbitrary: d)
  case Nil
  then show ?case by simp
next
  case (Cons a ls)
  have "filter (\<lambda>l. l \<notin> set ls) (removeAll a xs) = filter (\<lambda>l. l \<noteq> a \<and> l \<notin> set ls) xs" for xs
    by (induction xs) auto
  with Cons show ?case by (simp add: removeEventListener_def)
qed

lemma classList_remove_frame [simp]:
  "body (classList_remove el c d) = body d"
  "filters (classList_remove el c d) = filters d"
  "fresh (classList_remove el c d) = fresh d"
  "listeners (classList_remove el c d) = listeners d"
  "style (elements (classList_remove el c d) e) = style (elements d e)"
  "classList (elements (classList_remove el c d) e) =
     (if e = el then classList (elements d el) - {c} else classList (elements d e))"
  by (simp_all add: classList_remove_def)

subsection \<open>The filter leaves its container\<close>

lemma parentNode_Some:
  "parentNode r ns = Some k \<Longrightarrow> k < length ns \<and> r \<in> set (svg_children (ns ! k))"
proof (induction ns arbitrary: k)
  case Nil
  then show ?case by simp
next
  case (Cons n ns)
  then show ?case by (auto split: if_splits)
qed

lemma parentNode_None: "parentNode r ns = None \<longleftrightarrow> r \<notin> set (concat (map svg_children ns))"
  by (induction ns) auto

lemma parentNode_after_removal:
  "distinct (concat (map svg_children ns)) \<Longrightarrow> parentNode r ns = Some k \<Longrightarrow>
   parentNode r (ns[k := (ns ! k)\<lparr>svg_children := removeAll r (svg_children (ns ! k))\<rparr>]) = None"
proof (induction ns arbitrary: k)
  case Nil
  then show ?case by simp
next
  case (Cons n ns)
  show ?case
  proof (cases "r \<in> set (svg_children n)")
    case True
    with Cons.prems have k: "k = 0" and "r \<notin> set (concat (map svg_children ns))"
      by auto
    then show ?thesis by (simp add: parentNode_None)
  next
    case False
    with Cons.prems obtain j where j: "k = Suc j" "parentNode r ns = Some j"
      by auto
    from Cons.prems(1) have "distinct (concat (map svg_children ns))" by simp
    from Cons.IH [OF this j(2)] False show ?thesis by (simp add: j(1))
  qed
qed

text \<open>The removal step of \<open>destroy\<close> never raises: \<open>removeChild\<close> is reached only with the
  parent that holds the filter.\<close>

lemma destroy_eq:
  "destroy (this, d) =
     Inr (this,
          fold (removeProperty (element this)) stylesToRemove
            (case cleanup this of
               None \<Rightarrow> classList_remove (element this) ''liquid-glass'' (d\<lparr>body := detached_body this d\<rparr>)
             | Some c \<Rightarrow>
                 fold removeEventListener (drag_listeners (element this) c)
                   (classList_remove (element this) ''liquid-glass'' (d\<lparr>body := detached_body this d\<rparr>))))"
proof -
  have "(case svgFilter this of
           None \<Rightarrow> Inr d
         | Some r \<Rightarrow> (case parentNode r (body d) of None \<Rightarrow> Inr d | Some k \<Rightarrow> removeChild k r d)) =
        Inr (d\<lparr>body := detached_body this d\<rparr>)"
    by (auto simp: detached_body_def removeChild_def dest: parentNode_Some split: option.split)
  then show ?thesis
    by (simp add: destroy_def Let_def)
qed


lemma destroy_style:
  "destroy (this, d) = Inr (this', d') \<Longrightarrow>
   style (elements d' e) p =
     (if e = element this \<and> p \<in> set stylesToRemove then None else style (elements d e) p)"
  by (auto simp: destroy_eq style_fold_removeProperty split: option.splits)

lemma destroy_classList:
  "destroy (this, d) = Inr (this', d') \<Longrightarrow>
   classList (elements d' e) =
     (if e = element this then classList (elements d e) - {''liquid-glass''}
      else classList (elements d e))"
  by (auto simp: destroy_eq split: option.splits)

lemma destroy_body:
  "destroy (this, d) = Inr (this', d') \<Longrightarrow> body d' = detached_body this d"
  by (auto simp: destroy_eq split: option.splits)

lemma destroy_filters:
  "destroy (this, d) = Inr (this', d') \<Longrightarrow> filters d' = filters d \<and> this' = this"
  by (auto simp: destroy_eq split: option.splits)

lemma destroy_listeners:
  "destroy (this, d) = Inr (this', d') \<Longrightarrow>
   listeners d' =
     (case cleanup this of
        None \<Rightarrow> listeners d
      | Some c \<Rightarrow> filter (\<lambda>l. l \<notin> set (drag_listeners (element this) c)) (listeners d))"
  by (auto simp: destroy_eq listeners_fold_removeEventListener split: option.splits)

lemma detached_body_absent:
  "single_parent d \<Longrightarrow> svgFilter this = Some r \<Longrightarrow> parentNode r (detached_body this d) = None"
  by (auto simp: detached_body_def single_parent_def parentNode_after_removal split: option.split)

subsection \<open>A second teardown\<close>

lemma classList_remove_absent:
  "c \<notin> classList (elements d el) \<Longrightarrow> classList_remove el c d = d"
  by (simp add: classList_remove_def)

lemma fold_removeEventListener_absent:
  "set ls \<inter> set (listeners d) = {} \<Longrightarrow> fold removeEventListener ls d = d"
proof (induction ls arbitrary: d)
  case Nil
  then show ?case by simp
next
  case (Cons a ls)
  then have "removeEventListener a d = d"
    by (simp add: removeEventListener_def removeAll_id)
  with Cons show ?case by simp
qed

lemma removeProperty_absent:
  "style (elements d el) p = None \<Longrightarrow> removeProperty el p d = d"
proof -
  assume a: "style (elements d el) p = None"
  then have "(style (elements d el))(p := None) = style (elements d el)"
    by (simp add: fun_upd_idem)
  then show ?thesis by (simp add: removeProperty_def)
qed

lemma fold_removeProperty_absent:
  "\<forall>p\<in>set ps. style (elements d el) p = None \<Longrightarrow> fold (removeProperty el) ps d = d"
  by (induction ps arbitrary: d) (simp_all add: removeProperty_absent)

lemma destroy_again:
  assumes "single_parent d" and "destroy (this, d) = Inr (this', d')"
  shows "destroy (this, d') = Inr (this, d')"
proof -
  have body: "detached_body this d' = body d'"
  proof (cases "svgFilter this")
    case None
    then show ?thesis by (simp add: detached_body_def)
  next
    case (Some r)
    from detached_body_absent [OF assms(1) Some] destroy_body [OF assms(2)]
    have "parentNode r (body d') = None" by simp
    with Some show ?thesis by (simp add: detached_body_def)
  qed
  have cls: "''liquid-glass'' \<notin> classList (elements d' (element this))"
    by (simp add: destroy_classList [OF assms(2)])
  have lst: "cleanup this = Some c \<Longrightarrow>
      set (drag_listeners (element this) c) \<inter> set (listeners d') = {}" for c
    by (auto simp: destroy_listeners [OF assms(2)])
  have sty: "\<forall>p\<in>set stylesToRemove. style (elements d' (element this)) p = None"
    by (simp add: destroy_style [OF assms(2)])
  have b: "d'\<lparr>body := body d'\<rparr> = d'" by simp
  show ?thesis
    by (simp add: destroy_eq body b classList_remove_absent [OF cls] fold_removeEventListener_absent [OF lst]
        fold_removeProperty_absent [OF sty] split: option.split)
qed




subsection \<open>Witnesses\<close>

lemma body_setProperty [simp]: "body (setProperty el n v d) = body d"
  by (simp add: setProperty_def)

lemma body_classList_add [simp]: "body (classList_add el c d) = body d"
  by (simp add: classList_add_def)

lemma body_fold_addEventListener [simp]: "body (fold addEventListener ls d) = body d"
  by (induction ls arbitrary: d) (simp_all add: addEventListener_def)

lemma body_applyStyles [simp]: "body (snd (applyStyles s)) = body (snd s)"
  by (simp add: applyStyles_def Let_def case_prod_beta)

lemma body_makeDraggable [simp]: "body (snd (makeDraggable s)) = body (snd s)"
  by (simp add: makeDraggable_def Let_def case_prod_beta)

lemma body_createSVGFilter:
  "body (snd (createSVGFilter (this, d))) =
     (case getElementById registry_id (body d) of
        None \<Rightarrow> body d @ [new_container\<lparr>svg_children := [fresh d]\<rparr>]
      | Some k \<Rightarrow> (body d)[k := (body d ! k)\<lparr>svg_children := svg_children (body d ! k) @ [fresh d]\<rparr>])"
  by (simp add: createSVGFilter_def appendChild_def Let_def new_container_def split: option.split)

lemma body_construct:
  "body (snd (construct (Some e) opts rnd d)) =
     (case getElementById registry_id (body d) of
        None \<Rightarrow> body d @ [new_container\<lparr>svg_children := [fresh d]\<rparr>]
      | Some k \<Rightarrow> (body d)[k := (body d ! k)\<lparr>svg_children := svg_children (body d ! k) @ [fresh d]\<rparr>])"
  by (simp add: construct_def init_def Let_def case_prod_beta body_createSVGFilter
      split: option.split)

lemma classList_construct:
  "classList (elements (snd (construct (Some e) opts rnd d)) e) =
     insert ''liquid-glass'' (classList (elements d e))"
  by (simp add: construct_def init_def applyStyles_def makeDraggable_def classList_add_def
      setProperty_def Let_def case_prod_beta)

lemma tinted_facts:
  "element (fst tinted) = 0" "svgFilter (fst tinted) = Some 0"
  "body (snd tinted) = [new_container\<lparr>svg_children := [0]\<rparr>]"
  "style (elements (snd tinted) 0) ''--tint-color'' = Some ''rgba(10,20,30,0.4)''"
  "''liquid-glass'' \<in> classList (elements (snd tinted) 0)"
  by (simp_all add: tinted_def constructed_def construct_instance body_construct construct_style
      classList_construct blank_document_def Let_def merge_options_def no_options_def or_str_def
      or_bool_def)


lemma dragged_facts:
  "element (fst (gesture_move draggable_surface)) = 0"
  "style (elements (snd (gesture_move draggable_surface)) 0) ''cursor'' = Some ''grabbing''"
  "style (elements (snd (gesture_move draggable_surface)) 0) ''position'' = Some ''absolute''"
  "style (elements (snd (gesture_move draggable_surface)) 0) ''left'' = Some ''80px''"
  "style (elements (snd (gesture_move draggable_surface)) 0) ''top'' = Some ''90px''"
  "style (elements (snd (gesture_move draggable_surface)) 0) ''--shadow-blur'' = Some ''20px''"
proof -
  have e: "element (fst draggable_surface) = 0"
    by (simp add: draggable_surface_element)
  show "element (fst (gesture_move draggable_surface)) = 0"
    by (simp add: gesture_move_def gesture_down_def onMouseMove_def onMouseDown_def
        case_prod_beta Let_def e)
  have s: "style (elements (snd draggable_surface) 0) ''--shadow-blur'' = Some ''20px''"
    by (simp add: draggable_surface_def constructed_def construct_style Let_def
        merge_options_def no_options_def or_str_def or_bool_def)
  from gesture_move_style [of "fst draggable_surface" "snd draggable_surface"] s
  show "style (elements (snd (gesture_move draggable_surface)) 0) ''cursor'' = Some ''grabbing''"
    "style (elements (snd (gesture_move draggable_surface)) 0) ''position'' = Some ''absolute''"
    "style (elements (snd (gesture_move draggable_surface)) 0) ''left'' = Some ''80px''"
    "style (elements (snd (gesture_move draggable_surface)) 0) ''top'' = Some ''90px''"
    "style (elements (snd (gesture_move draggable_surface)) 0) ''--shadow-blur'' = Some ''20px''"
    by (simp_all add: e)
qed


section \<open>Updates on a torn-down instance\<close>

lemma updateShadow_any_document:
  "options (fst (updateShadow b sp c off (this, d1))) = options (fst (updateShadow b sp c off (this, d2)))"
  "same_writes (element this) d1 (snd (updateShadow b sp c off (this, d1)))
     d2 (snd (updateShadow b sp c off (this, d2)))"
  by (cases b; cases sp; cases c; cases off; simp add: updateShadow_def same_writes_def)+

lemma updateShadow_writes:
  "b = Some v \<Longrightarrow> shadowBlur (options (fst (updateShadow b sp c off (this, d)))) = v \<and>
     style (elements (snd (updateShadow b sp c off (this, d))) (element this)) ''--shadow-blur'' = Some v"
  "sp = Some v \<Longrightarrow> shadowSpread (options (fst (updateShadow b sp c off (this, d)))) = v \<and>
     style (elements (snd (updateShadow b sp c off (this, d))) (element this)) ''--shadow-spread'' = Some v"
  "c = Some v \<Longrightarrow> shadowColor (options (fst (updateShadow b sp c off (this, d)))) = v \<and>
     style (elements (snd (updateShadow b sp c off (this, d))) (element this)) ''--shadow-color'' = Some v"
  "off = Some v \<Longrightarrow> shadowOffset (options (fst (updateShadow b sp c off (this, d)))) = v \<and>
     style (elements (snd (updateShadow b sp c off (this, d))) (element this)) ''--shadow-offset'' = Some v"
  by (cases b; cases sp; cases c; cases off; simp add: updateShadow_def)+

lemma updateTint_any_document:
  "options (fst (updateTint tc ta (this, d1))) = options (fst (updateTint tc ta (this, d2)))"
  "same_writes (element this) d1 (snd (updateTint tc ta (this, d1)))
     d2 (snd (updateTint tc ta (this, d2)))"
  by (cases tc; cases ta; simp add: updateTint_def same_writes_def split: option.split)+

lemma updateTint_writes:
  "tc = Some v \<Longrightarrow> tintColor (options (fst (updateTint tc ta (this, d)))) = v"
  "tc = Some v \<Longrightarrow> ta = None \<Longrightarrow>
     style (elements (snd (updateTint tc ta (this, d))) (element this)) ''--tint-color'' = Some v"
  "ta = Some a \<Longrightarrow> tintOpacity (options (fst (updateTint tc ta (this, d)))) = a"
  by (cases tc; cases ta; simp add: updateTint_def split: option.split)+

lemma updateFrost_any_document:
  "options (fst (updateFrost fb (this, d1))) = options (fst (updateFrost fb (this, d2)))"
  "same_writes (element this) d1 (snd (updateFrost fb (this, d1))) d2 (snd (updateFrost fb (this, d2)))"
  "frostBlur (options (fst (updateFrost fb (this, d)))) = fb"
  "style (elements (snd (updateFrost fb (this, d))) (element this)) ''--frost-blur'' = Some fb"
  by (simp_all add: updateFrost_def same_writes_def)

lemma updateOuterShadow_any_document:
  "options (fst (updateOuterShadow ob oc (this, d1))) = options (fst (updateOuterShadow ob oc (this, d2)))"
  "same_writes (element this) d1 (snd (updateOuterShadow ob oc (this, d1)))
     d2 (snd (updateOuterShadow ob oc (this, d2)))"
  by (cases ob; cases oc; simp add: updateOuterShadow_def same_writes_def)+

lemma updateOuterShadow_writes:
  "ob = Some v \<Longrightarrow> outerShadowBlur (options (fst (updateOuterShadow ob oc (this, d)))) = v \<and>
     style (elements (snd (updateOuterShadow ob oc (this, d))) (element this)) ''--outer-shadow-blur'' = Some v"
  "oc = Some v \<Longrightarrow> outerShadowColor (options (fst (updateOuterShadow ob oc (this, d)))) = v \<and>
     style (elements (snd (updateOuterShadow ob oc (this, d))) (element this)) ''--outer-shadow-color'' = Some v"
  by (cases ob; cases oc; simp add: updateOuterShadow_def)+

lemma set_first_absent:
  "\<forall>c\<in>set cs. fe_tag c \<noteq> tag \<Longrightarrow> set_first tag name v cs = cs"
  by (induction cs) simp_all

lemma setChildAttribute_absent:
  "querySelector tag (filters d r) = None \<Longrightarrow> setChildAttribute r tag name v d = d"
proof -
  assume "querySelector tag (filters d r) = None"
  then have "\<forall>c\<in>set (filter_children (filters d r)). fe_tag c \<noteq> tag"
    by (simp add: querySelector_def find_None_iff)
  then have "set_first tag name v (filter_children (filters d r)) = filter_children (filters d r)"
    by (rule set_first_absent)
  then show ?thesis by (simp add: setChildAttribute_def)
qed

lemma patch_stage_defined:
  "svgFilter this = Some r \<Longrightarrow>
   patch_stage tag name v (this, d) =
     Inr (this, setChildAttribute r tag name (number_to_string v) d)"
  by (simp add: patch_stage_def setChildAttribute_absent split: option.split)

lemma setChildAttribute_frame [simp]:
  "elements (setChildAttribute r tag name v d) = elements d"
  "body (setChildAttribute r tag name v d) = body d"
  "listeners (setChildAttribute r tag name v d) = listeners d"
  "fresh (setChildAttribute r tag name v d) = fresh d"
  by (simp_all add: setChildAttribute_def)

lemma filters_setChildAttribute_same:
  "filters (setChildAttribute r tag name v d) r =
     (filters d r)\<lparr>filter_children := set_first tag name v (filter_children (filters d r))\<rparr>"
  by (simp add: setChildAttribute_def)

lemma updateDistortion_defined:
  assumes "svgFilter this = Some r"
  shows "updateDistortion f g (this, d) =
           Inr (this\<lparr>options := (options this)
                   \<lparr>noiseFrequency := (case f of None \<Rightarrow> noiseFrequency (options this) | Some v \<Rightarrow> v),
                    distortionStrength := (case g of None \<Rightarrow> distortionStrength (options this) | Some v \<Rightarrow> v)\<rparr>\<rparr>,
                (case g of None \<Rightarrow> id
                 | Some w \<Rightarrow> setChildAttribute r ''feDisplacementMap'' ''scale'' (number_to_string w))
                  ((case f of None \<Rightarrow> id
                    | Some v \<Rightarrow> setChildAttribute r ''feTurbulence'' ''baseFrequency'' (number_to_string v)) d))"
  using assms by (cases f; cases g; simp add: updateDistortion_def patch_stage_defined)

lemma updateDistortion_any_document:
  assumes "svgFilter this = Some r" and "filters d1 r = filters d2 r"
  shows "\<exists>s1 s2. updateDistortion f g (this, d1) = Inr s1 \<and>
           updateDistortion f g (this, d2) = Inr s2 \<and>
           options (fst s1) = options (fst s2) \<and>
           filters (snd s1) r = filters (snd s2) r \<and>
           elements (snd s1) = elements d1 \<and>
           (\<forall>v. f = Some v \<longrightarrow> noiseFrequency (options (fst s1)) = v) \<and>
           (\<forall>v. g = Some v \<longrightarrow> distortionStrength (options (fst s1)) = v)"
  using assms(2)
  by (cases f; cases g; simp add: updateDistortion_defined [OF assms(1)] filters_setChildAttribute_same)



section \<open>The shared registry\<close>

lemma fresh_fold_addEventListener [simp]: "fresh (fold addEventListener ls d) = fresh d"
  by (induction ls arbitrary: d) (simp_all add: addEventListener_def)

lemma fresh_makeDraggable [simp]: "fresh (snd (makeDraggable s)) = Suc (fresh (snd s))"
  by (simp add: makeDraggable_def Let_def case_prod_beta)

lemma filters_classList_add [simp]: "filters (classList_add el c d) = filters d"
  by (simp add: classList_add_def)

lemma fresh_construct:
  "fresh (snd (construct (Some e) opts rnd d)) =
     (if draggable (merge_options opts) then Suc (Suc (fresh d)) else Suc (fresh d))"
  by (simp add: construct_def init_def Let_def case_prod_beta)

lemma filters_construct:
  "filters (snd (construct (Some e) opts rnd d)) =
     (filters d)(fresh d := new_filter (projr (fst (construct (Some e) opts rnd d))))"
  by (simp add: construct_def init_def Let_def case_prod_beta new_filter_def)

lemma construct_Inr:
  "construct (Some e) opts rnd d = (Inr (projr (fst (construct (Some e) opts rnd d))),
     snd (construct (Some e) opts rnd d))"
  by (simp add: construct_def case_prod_beta)

lemma construct_all_Cons:
  "construct_all ((el, opts, rnd) # cs) d =
     (projr (fst (construct (Some el) opts rnd d)) #
        fst (construct_all cs (snd (construct (Some el) opts rnd d))),
      snd (construct_all cs (snd (construct (Some el) opts rnd d))))"
  by (subst construct_all.simps, subst construct_Inr) (simp add: case_prod_beta)

lemma svgFilterId_construct:
  "svgFilterId (projr (fst (construct (Some e) opts rnd d))) = ''glass-distortion-'' @ substr 2 9 rnd"
  "svgFilter (projr (fst (construct (Some e) opts rnd d))) = Some (fresh d)"
  by (simp_all add: construct_instance)

lemma filter_id_construct:
  "filter_attrs (filters (snd (construct (Some e) opts rnd d)) (fresh d)) ''id'' =
     Some (''glass-distortion-'' @ substr 2 9 rnd)"
  by (simp add: filters_construct new_filter_def svgFilterId_construct)

lemma body_construct_registry:
  "body d = [c] \<Longrightarrow> svg_attrs c ''id'' = Some registry_id \<Longrightarrow>
   body (snd (construct (Some e) opts rnd d)) = [c\<lparr>svg_children := svg_children c @ [fresh d]\<rparr>]"
  by (simp add: body_construct)

lemma body_construct_first:
  "body d = [] \<Longrightarrow>
   body (snd (construct (Some e) opts rnd d)) = [new_container\<lparr>svg_children := [fresh d]\<rparr>]"
  by (simp add: body_construct)

lemma construct_all_registry:
  assumes "body d = [c]" and "svg_attrs c ''id'' = Some registry_id"
    and "\<forall>r\<in>set (svg_children c). r < fresh d"
  shows "\<exists>new. body (snd (construct_all cs d)) = [c\<lparr>svg_children := svg_children c @ new\<rparr>] \<and>
           map svgFilter (fst (construct_all cs d)) = map Some new \<and>
           length new = length cs \<and> distinct new \<and>
           (\<forall>r\<in>set new. fresh d \<le> r \<and> r < fresh (snd (construct_all cs d))) \<and>
           fresh d \<le> fresh (snd (construct_all cs d)) \<and>
           (\<forall>r. r < fresh d \<longrightarrow> filters (snd (construct_all cs d)) r = filters d r) \<and>
           (\<forall>i<length cs.
              filter_attrs (filters (snd (construct_all cs d)) (new ! i)) ''id'' =
                Some (svgFilterId (fst (construct_all cs d) ! i)) \<and>
              svgFilterId (fst (construct_all cs d) ! i) = ''glass-distortion-'' @ token (cs ! i))"
  using assms
proof (induction cs arbitrary: d c)
  case Nil
  then show ?case by simp
next
  case (Cons a cs)
  obtain el opts rnd where a: "a = (el, opts, rnd)" by (cases a)
  define d1 where "d1 = snd (construct (Some el) opts rnd d)"
  define this where "this = projr (fst (construct (Some el) opts rnd d))"
  define c1 where "c1 = c\<lparr>svg_children := svg_children c @ [fresh d]\<rparr>"
  have b1: "body d1 = [c1]"
    unfolding d1_def c1_def by (rule body_construct_registry [OF Cons.prems(1,2)])
  have id1: "svg_attrs c1 ''id'' = Some registry_id"
    using Cons.prems(2) by (simp add: c1_def)
  have f1: "fresh d < fresh d1"
    by (simp add: d1_def fresh_construct)
  have bound1: "\<forall>r\<in>set (svg_children c1). r < fresh d1"
    using Cons.prems(3) f1 by (auto simp: c1_def)
  from Cons.IH [OF b1 id1 bound1] obtain new where
    n: "body (snd (construct_all cs d1)) = [c1\<lparr>svg_children := svg_children c1 @ new\<rparr>]"
      "map svgFilter (fst (construct_all cs d1)) = map Some new"
      "length new = length cs" "distinct new"
      "\<forall>r\<in>set new. fresh d1 \<le> r \<and> r < fresh (snd (construct_all cs d1))"
      "fresh d1 \<le> fresh (snd (construct_all cs d1))"
      "\<forall>r. r < fresh d1 \<longrightarrow> filters (snd (construct_all cs d1)) r = filters d1 r"
      "\<forall>i<length cs.
         filter_attrs (filters (snd (construct_all cs d1)) (new ! i)) ''id'' =
           Some (svgFilterId (fst (construct_all cs d1) ! i)) \<and>
         svgFilterId (fst (construct_all cs d1) ! i) = ''glass-distortion-'' @ token (cs ! i)"
    by blast
  have ca: "construct_all (a # cs) d = (this # fst (construct_all cs d1), snd (construct_all cs d1))"
    unfolding a d1_def this_def by (rule construct_all_Cons)
  have t: "svgFilter this = Some (fresh d)" "svgFilterId this = ''glass-distortion-'' @ token a"
    by (simp_all add: this_def svgFilterId_construct token_def a)
  have fd: "filters (snd (construct_all cs d1)) (fresh d) = filters d1 (fresh d)"
    using n(7) f1 by simp
  have idd: "filter_attrs (filters d1 (fresh d)) ''id'' = Some (svgFilterId this)"
    by (simp add: d1_def filter_id_construct t token_def a)
  have old: "\<forall>r. r < fresh d \<longrightarrow> filters (snd (construct_all cs d1)) r = filters d r"
  proof (intro allI impI)
    fix r assume r: "r < fresh d"
    with f1 n(7) have "filters (snd (construct_all cs d1)) r = filters d1 r" by simp
    also have "\<dots> = filters d r" using r by (simp add: d1_def filters_construct)
    finally show "filters (snd (construct_all cs d1)) r = filters d r" .
  qed
  have ix: "\<forall>i<length (a # cs).
         filter_attrs (filters (snd (construct_all cs d1)) ((fresh d # new) ! i)) ''id'' =
           Some (svgFilterId ((this # fst (construct_all cs d1)) ! i)) \<and>
         svgFilterId ((this # fst (construct_all cs d1)) ! i) = ''glass-distortion-'' @ token ((a # cs) ! i)"
  proof (intro allI impI)
    fix i assume i: "i < length (a # cs)"
    show "filter_attrs (filters (snd (construct_all cs d1)) ((fresh d # new) ! i)) ''id'' =
           Some (svgFilterId ((this # fst (construct_all cs d1)) ! i)) \<and>
         svgFilterId ((this # fst (construct_all cs d1)) ! i) = ''glass-distortion-'' @ token ((a # cs) ! i)"
    proof (cases i)
      case 0
      then show ?thesis by (simp add: fd idd t)
    next
      case (Suc j)
      with i n(8) show ?thesis by simp
    qed
  qed
  have "body (snd (construct_all cs d1)) = [c\<lparr>svg_children := svg_children c @ (fresh d # new)\<rparr>]"
    by (simp add: n(1) c1_def)
  moreover have "map svgFilter (this # fst (construct_all cs d1)) = map Some (fresh d # new)"
    by (simp add: n(2) t)
  moreover have "length (fresh d # new) = length (a # cs)"
    by (simp add: n(3))
  moreover have "distinct (fresh d # new)"
    using n(4,5) f1 by auto
  moreover have "\<forall>r\<in>set (fresh d # new). fresh d \<le> r \<and> r < fresh (snd (construct_all cs d1))"
    using n(5,6) f1 by auto
  moreover have "fresh d \<le> fresh (snd (construct_all cs d1))"
    using n(6) f1 by simp
  ultimately show ?case
    unfolding ca fst_conv snd_conv using old ix by blast
qed


lemma construct_all_fresh_session:
  assumes "body d0 = []" and "cs \<noteq> []"
  shows "\<exists>c. body (snd (construct_all cs d0)) = [c] \<and>
           svg_attrs c ''id'' = Some registry_id \<and>
           map svgFilter (fst (construct_all cs d0)) = map Some (svg_children c) \<and>
           length (svg_children c) = length cs \<and> distinct (svg_children c) \<and>
           (\<forall>i<length cs.
              filter_attrs (filters (snd (construct_all cs d0)) (svg_children c ! i)) ''id'' =
                Some (svgFilterId (fst (construct_all cs d0) ! i)) \<and>
              svgFilterId (fst (construct_all cs d0) ! i) = ''glass-distortion-'' @ token (cs ! i))"
proof -
  from assms(2) obtain el opts rnd cs' where cs: "cs = (el, opts, rnd) # cs'"
    by (cases cs) auto
  define d1 where "d1 = snd (construct (Some el) opts rnd d0)"
  define this where "this = projr (fst (construct (Some el) opts rnd d0))"
  define c1 where "c1 = new_container\<lparr>svg_children := [fresh d0]\<rparr>"
  have b1: "body d1 = [c1]"
    unfolding d1_def c1_def by (rule body_construct_first [OF assms(1)])
  have id1: "svg_attrs c1 ''id'' = Some registry_id"
    by (simp add: c1_def new_container_def)
  have f1: "fresh d0 < fresh d1"
    by (simp add: d1_def fresh_construct)
  have bound1: "\<forall>r\<in>set (svg_children c1). r < fresh d1"
    using f1 by (simp add: c1_def)
  from construct_all_registry [OF b1 id1 bound1, of cs'] obtain new where
    n: "body (snd (construct_all cs' d1)) = [c1\<lparr>svg_children := svg_children c1 @ new\<rparr>]"
      "map svgFilter (fst (construct_all cs' d1)) = map Some new"
      "length new = length cs'" "distinct new"
      "\<forall>r\<in>set new. fresh d1 \<le> r \<and> r < fresh (snd (construct_all cs' d1))"
      "\<forall>r. r < fresh d1 \<longrightarrow> filters (snd (construct_all cs' d1)) r = filters d1 r"
      "\<forall>i<length cs'.
         filter_attrs (filters (snd (construct_all cs' d1)) (new ! i)) ''id'' =
           Some (svgFilterId (fst (construct_all cs' d1) ! i)) \<and>
         svgFilterId (fst (construct_all cs' d1) ! i) = ''glass-distortion-'' @ token (cs' ! i)"
    by blast
  define c where "c = c1\<lparr>svg_children := fresh d0 # new\<rparr>"
  have ca: "construct_all cs d0 = (this # fst (construct_all cs' d1), snd (construct_all cs' d1))"
    unfolding cs d1_def this_def by (rule construct_all_Cons)
  have t: "svgFilter this = Some (fresh d0)"
    "svgFilterId this = ''glass-distortion-'' @ token (el, opts, rnd)"
    by (simp_all add: this_def svgFilterId_construct token_def)
  have fd: "filters (snd (construct_all cs' d1)) (fresh d0) = filters d1 (fresh d0)"
    using n(6) f1 by simp
  have idd: "filter_attrs (filters d1 (fresh d0)) ''id'' = Some (svgFilterId this)"
    by (simp add: d1_def filter_id_construct t token_def)
  have ix: "\<forall>i<length cs.
         filter_attrs (filters (snd (construct_all cs' d1)) (svg_children c ! i)) ''id'' =
           Some (svgFilterId ((this # fst (construct_all cs' d1)) ! i)) \<and>
         svgFilterId ((this # fst (construct_all cs' d1)) ! i) = ''glass-distortion-'' @ token (cs ! i)"
  proof (intro allI impI)
    fix i assume i: "i < length cs"
    show "filter_attrs (filters (snd (construct_all cs' d1)) (svg_children c ! i)) ''id'' =
           Some (svgFilterId ((this # fst (construct_all cs' d1)) ! i)) \<and>
         svgFilterId ((this # fst (construct_all cs' d1)) ! i) = ''glass-distortion-'' @ token (cs ! i)"
    proof (cases i)
      case 0
      then show ?thesis by (simp add: fd idd t c_def cs)
    next
      case (Suc j)
      with i n(7) show ?thesis by (simp add: c_def cs)
    qed
  qed
  have "body (snd (construct_all cs' d1)) = [c]"
    by (simp add: n(1) c_def c1_def)
  moreover have "svg_attrs c ''id'' = Some registry_id"
    using id1 by (simp add: c_def)
  moreover have "map svgFilter (this # fst (construct_all cs' d1)) = map Some (svg_children c)"
    by (simp add: n(2) t c_def)
  moreover have "length (svg_children c) = length cs"
    by (simp add: n(3) c_def cs)
  moreover have "distinct (svg_children c)"
    using n(4,5) f1 by (auto simp: c_def)
  ultimately show ?thesis
    unfolding ca fst_conv snd_conv using ix by blast
qed

lemma find_unique_index:
  assumes "i < length xs" and "P (xs ! i)" and "\<forall>j<length xs. P (xs ! j) \<longrightarrow> j = i"
  shows "find P xs = Some (xs ! i)"
proof -
  have "\<exists>k<length xs. P (xs ! k) \<and> xs ! i = xs ! k \<and> (\<forall>j<k. \<not> P (xs ! j))"
  proof (intro exI [of _ i] conjI assms(1,2) refl allI impI)
    fix j assume j: "j < i"
    then have "j < length xs" using assms(1) by simp
    with assms(3) j show "\<not> P (xs ! j)" by auto
  qed
  then show ?thesis by (simp add: find_Some_iff)
qed


lemma destroy_attached:
  assumes "body d = [c]" and "svgFilter this = Some r" and "r \<in> set (svg_children c)"
  shows "\<exists>d'. destroy (this, d) = Inr (this, d') \<and>
           body d' = [c\<lparr>svg_children := removeAll r (svg_children c)\<rparr>]"
proof -
  obtain d' where d': "destroy (this, d) = Inr (this, d')"
    by (simp add: destroy_eq)
  have "detached_body this d = [c\<lparr>svg_children := removeAll r (svg_children c)\<rparr>]"
    using assms by (simp add: detached_body_def)
  with destroy_body [OF d'] d' show ?thesis by simp
qed

text \<open>
  C7, amended: starting from a document without a container, any number of
  constructions (at least one) leaves exactly one container, which carries the
  registry's identifier and holds one filter per instance, all different, in the order
  of construction; each filter carries its instance's identifier; destroying one
  instance removes its filter from the container and leaves the others there. When the
  tokens cut from the random texts are pairwise different, each identifier resolves to
  its own instance's filter.
\<close>

theorem registry_singleton:
  assumes "body d0 = []" and "cs \<noteq> []" and "construct_all cs d0 = (insts, d)"
  shows "\<exists>c. body d = [c] \<and> registries d = [c] \<and>
           length insts = length cs \<and>
           map svgFilter insts = map Some (svg_children c) \<and>
           distinct (svg_children c) \<and>
           (\<forall>i<length insts.
              filter_attrs (filters d (svg_children c ! i)) ''id'' = Some (svgFilterId (insts ! i))) \<and>
           (distinct (map token cs) \<longrightarrow>
              (\<forall>i<length insts. filter_by_id (svgFilterId (insts ! i)) d = svgFilter (insts ! i))) \<and>
           (\<forall>i<length insts.
              \<exists>d'. destroy (insts ! i, d) = Inr (insts ! i, d') \<and>
                   body d' = [c\<lparr>svg_children := removeAll (svg_children c ! i) (svg_children c)\<rparr>])"
proof -
  from assms(3) have R: "fst (construct_all cs d0) = insts" "snd (construct_all cs d0) = d"
    by simp_all
  from construct_all_fresh_session [OF assms(1,2)] obtain c where
    c: "body d = [c]" "svg_attrs c ''id'' = Some registry_id"
      "map svgFilter insts = map Some (svg_children c)"
      "length (svg_children c) = length cs" "distinct (svg_children c)"
      "\<forall>i<length cs.
         filter_attrs (filters d (svg_children c ! i)) ''id'' = Some (svgFilterId (insts ! i)) \<and>
         svgFilterId (insts ! i) = ''glass-distortion-'' @ token (cs ! i)"
    unfolding R by blast
  from c(3) have "length (map svgFilter insts) = length (map Some (svg_children c))" by simp
  then have len: "length insts = length cs" using c(4) by simp
  have sf: "svgFilter (insts ! i) = Some (svg_children c ! i)" if "i < length insts" for i
  proof -
    from that have "map svgFilter insts ! i = svgFilter (insts ! i)" by simp
    moreover from that len c(4) have "map Some (svg_children c) ! i = Some (svg_children c ! i)"
      by simp
    ultimately show ?thesis using c(3) by simp
  qed
  have reg: "registries d = [c]"
    by (simp add: registries_def c(1,2))
  have ids: "\<forall>i<length insts.
      filter_attrs (filters d (svg_children c ! i)) ''id'' = Some (svgFilterId (insts ! i))"
    using c(6) len by simp
  have addr: "\<forall>i<length insts. filter_by_id (svgFilterId (insts ! i)) d = svgFilter (insts ! i)"
    if dt: "distinct (map token cs)"
  proof (intro allI impI)
    fix i assume i: "i < length insts"
    let ?P = "\<lambda>r. filter_attrs (filters d r) ''id'' = Some (svgFilterId (insts ! i))"
    have i': "i < length (svg_children c)" using i len c(4) by simp
    have Pi: "?P (svg_children c ! i)" using ids i by simp
    have uniq: "\<forall>j<length (svg_children c). ?P (svg_children c ! j) \<longrightarrow> j = i"
    proof (intro allI impI)
      fix j assume j: "j < length (svg_children c)" and Pj: "?P (svg_children c ! j)"
      from j c(4) c(6) have "filter_attrs (filters d (svg_children c ! j)) ''id'' =
          Some (''glass-distortion-'' @ token (cs ! j))" by simp
      moreover from i len c(6) have "svgFilterId (insts ! i) = ''glass-distortion-'' @ token (cs ! i)"
        by simp
      ultimately have "token (cs ! j) = token (cs ! i)" using Pj by simp
      with nth_eq_iff_index_eq [OF dt, of j i] i j len c(4) show "j = i" by simp
    qed
    from find_unique_index [of i "svg_children c" ?P, OF i' Pi uniq] sf [OF i]
    show "filter_by_id (svgFilterId (insts ! i)) d = svgFilter (insts ! i)"
      by (simp add: filter_by_id_def c(1))
  qed
  have rem: "\<forall>i<length insts.
      \<exists>d'. destroy (insts ! i, d) = Inr (insts ! i, d') \<and>
           body d' = [c\<lparr>svg_children := removeAll (svg_children c ! i) (svg_children c)\<rparr>]"
  proof (intro allI impI)
    fix i assume i: "i < length insts"
    then have "svg_children c ! i \<in> set (svg_children c)" using len c(4) by simp
    from destroy_attached [OF c(1) sf [OF i] this]
    show "\<exists>d'. destroy (insts ! i, d) = Inr (insts ! i, d') \<and>
           body d' = [c\<lparr>svg_children := removeAll (svg_children c ! i) (svg_children c)\<rparr>]" .
  qed
  from c(1) reg len c(3) c(5) ids addr rem show ?thesis by blast
qed


text \<open>
  C7 as the spec words it fails: two constructions whose random texts differ after the
  ninth character of the fraction give two filters with one identifier, and the
  identifier of the second instance resolves to the filter of the first.
\<close>

theorem registry_singleton_counterexample:
  "length (fst colliding) = 2 \<and>
   svgFilter (fst colliding ! 0) \<noteq> svgFilter (fst colliding ! 1) \<and>
   svgFilterId (fst colliding ! 0) = svgFilterId (fst colliding ! 1) \<and>
   filter_by_id (svgFilterId (fst colliding ! 1)) (snd colliding) \<noteq> svgFilter (fst colliding ! 1)"
proof -
  define d1 where "d1 = snd (construct (Some 0) no_options ''0.4fzyo82mvyr'' blank_document)"
  define d2 where "d2 = snd (construct (Some 1) no_options ''0.4fzyo82mvzz'' d1)"
  define this0 where "this0 = projr (fst (construct (Some 0) no_options ''0.4fzyo82mvyr'' blank_document))"
  define this1 where "this1 = projr (fst (construct (Some 1) no_options ''0.4fzyo82mvzz'' d1))"
  have col: "colliding = ([this0, this1], d2)"
    by (simp only: colliding_def construct_all_Cons construct_all.simps(1) d1_def d2_def
        this0_def this1_def fst_conv snd_conv)
  have nd: "\<not> draggable (merge_options no_options)"
    by (simp add: merge_options_def no_options_def or_bool_def)
  have f0: "fresh blank_document = 0" and b0: "body blank_document = []"
    by (simp_all add: blank_document_def)
  have f1: "fresh d1 = 1"
    by (simp add: d1_def fresh_construct nd f0)
  have b1: "body d1 = [new_container\<lparr>svg_children := [0]\<rparr>]"
    by (simp add: d1_def body_construct_first [OF b0] f0)
  have b2: "body d2 = [new_container\<lparr>svg_children := [0, 1]\<rparr>]"
    unfolding d2_def
    by (simp add: body_construct_registry [OF b1] new_container_def f1)
  have t0: "svgFilter this0 = Some 0" "svgFilterId this0 = ''glass-distortion-4fzyo82mv''"
    by (simp_all add: this0_def svgFilterId_construct f0 substr_def)
  have t1: "svgFilter this1 = Some 1" "svgFilterId this1 = ''glass-distortion-4fzyo82mv''"
    by (simp_all add: this1_def svgFilterId_construct f1 substr_def)
  have id0: "filter_attrs (filters d2 0) ''id'' = Some ''glass-distortion-4fzyo82mv''"
    using filter_id_construct [of 0 no_options "''0.4fzyo82mvyr''" blank_document]
    by (simp add: d2_def filters_construct f1 f0 d1_def [symmetric] substr_def)
  show ?thesis
    by (simp add: col t0 t1 filter_by_id_def b2 id0)
qed

theorem registry_singleton_witness:
  "body blank_document = [] \<and> three_constructions \<noteq> [] \<and>
   distinct (map token three_constructions) \<and>
   (\<exists>c. body (snd three_surfaces) = [c] \<and> registries (snd three_surfaces) = [c] \<and>
      length (fst three_surfaces) = 3 \<and> distinct (svg_children c) \<and>
      filter_by_id (svgFilterId (fst three_surfaces ! 2)) (snd three_surfaces) =
        svgFilter (fst three_surfaces ! 2) \<and>
      (\<exists>d'. destroy (fst three_surfaces ! 1, snd three_surfaces) = Inr (fst three_surfaces ! 1, d') \<and>
         body d' = [c\<lparr>svg_children := removeAll (svg_children c ! 1) (svg_children c)\<rparr>]))"
proof -
  have b0: "body blank_document = []"
    by (simp add: blank_document_def)
  have ne: "three_constructions \<noteq> []" and len: "length three_constructions = 3"
    by (simp_all add: three_constructions_def)
  have dt: "distinct (map token three_constructions)"
    by (simp add: three_constructions_def token_def substr_def)
  have R: "construct_all three_constructions blank_document = (fst three_surfaces, snd three_surfaces)"
    by (simp add: three_surfaces_def)
  from registry_singleton [OF b0 ne R] obtain c where
    c: "body (snd three_surfaces) = [c]" "registries (snd three_surfaces) = [c]"
      "length (fst three_surfaces) = length three_constructions"
      "distinct (svg_children c)"
      "distinct (map token three_constructions) \<longrightarrow>
         (\<forall>i<length (fst three_surfaces).
            filter_by_id (svgFilterId (fst three_surfaces ! i)) (snd three_surfaces) =
              svgFilter (fst three_surfaces ! i))"
      "\<forall>i<length (fst three_surfaces).
         \<exists>d'. destroy (fst three_surfaces ! i, snd three_surfaces) = Inr (fst three_surfaces ! i, d') \<and>
              body d' = [c\<lparr>svg_children := removeAll (svg_children c ! i) (svg_children c)\<rparr>]"
    by (elim exE conjE) (rule that; assumption)
  have l3: "length (fst three_surfaces) = 3" using c(3) len by simp
  from c(5) dt l3 have a: "filter_by_id (svgFilterId (fst three_surfaces ! 2)) (snd three_surfaces) =
        svgFilter (fst three_surfaces ! 2)" by simp
  from c(6) l3 have r: "\<exists>d'. destroy (fst three_surfaces ! 1, snd three_surfaces) =
        Inr (fst three_surfaces ! 1, d') \<and>
      body d' = [c\<lparr>svg_children := removeAll (svg_children c ! 1) (svg_children c)\<rparr>]" by simp
  from b0 ne dt c(1,2) l3 c(4) a r show ?thesis by blast
qed

section \<open>States the class reaches\<close>

text \<open>The hypothesis of the teardown theorem holds in every session that starts without
  a container, and \<open>destroy\<close> keeps it. The updates and the drag handlers do not touch
  the containers.\<close>

lemma single_parent_fresh_session:
  assumes "body d0 = []" and "cs \<noteq> []"
  shows "single_parent (snd (construct_all cs d0))"
proof -
  from construct_all_fresh_session [OF assms] obtain c where
    "body (snd (construct_all cs d0)) = [c]" "distinct (svg_children c)"
    by blast
  then show ?thesis by (simp add: single_parent_def)
qed

lemma children_after_removal:
  "set (concat (map svg_children (ns[k := (ns ! k)\<lparr>svg_children := removeAll r (svg_children (ns ! k))\<rparr>])))
     \<subseteq> set (concat (map svg_children ns))"
proof (induction ns arbitrary: k)
  case Nil
  then show ?case by simp
next
  case (Cons n ns)
  show ?case
  proof (cases k)
    case 0
    then show ?thesis by auto
  next
    case (Suc j)
    with Cons.IH [of j] show ?thesis by auto
  qed
qed

lemma distinct_after_removal:
  "distinct (concat (map svg_children ns)) \<Longrightarrow>
   distinct (concat (map svg_children
     (ns[k := (ns ! k)\<lparr>svg_children := removeAll r (svg_children (ns ! k))\<rparr>])))"
proof (induction ns arbitrary: k)
  case Nil
  then show ?case by simp
next
  case (Cons n ns)
  show ?case
  proof (cases k)
    case 0
    with Cons.prems show ?thesis by (auto simp: distinct_removeAll)
  next
    case (Suc j)
    from Cons.prems have "distinct (concat (map svg_children ns))" by simp
    from Cons.IH [OF this, of j] Cons.prems children_after_removal [of ns j r] Suc
    show ?thesis by auto
  qed
qed

lemma single_parent_destroy:
  assumes "single_parent d" and "destroy (this, d) = Inr (this', d')"
  shows "single_parent d'"
  using assms(1) destroy_body [OF assms(2)]
  by (auto simp: single_parent_def detached_body_def distinct_after_removal split: option.split)

text \<open>What the constructor does get right of the default completion: without options
  every field is the documented default, and a truthy value is kept.\<close>

lemma merge_options_empty: "merge_options no_options = defaults"
  by (simp add: merge_options_def no_options_def defaults_def or_str_def or_num_def or_bool_def)

lemma construct_defaults:
  "options (projr (fst (construct (Some el) no_options rnd d))) = defaults"
  by (simp add: construct_instance merge_options_empty)

lemma or_str_truthy: "s \<noteq> [] \<Longrightarrow> or_str (Some s) b = s"
  by (simp add: or_str_def)

lemma or_num_truthy: "truthy_num n \<Longrightarrow> or_num (Some n) b = n"
  by (simp add: or_num_def)

end
